theory Spec2Isabelle
  imports Complex_Main
begin

chapter \<open>The GMX order-construction pipeline\<close>

text \<open>
  A shallow embedding of \<^verbatim>\<open>scripts/v2/order/order.py\<close>,
  \<^verbatim>\<open>order/order_argument_parser.py\<close>, \<^verbatim>\<open>order/create_increase_order.py\<close>,
  \<^verbatim>\<open>order/create_decrease_order.py\<close> and \<^verbatim>\<open>approve_token_for_spend.py\<close>.
  Part I holds the definitions, Part II the theorems.
\<close>

section \<open>Part I: the model\<close>

subsection \<open>Python numbers\<close>

text \<open>
  Python's \<^verbatim>\<open>int\<close> is unbounded: \<open>int\<close>. A \<^verbatim>\<open>float\<close> (and numpy's
  \<^verbatim>\<open>float64\<close>) is an IEEE-754 binary64 number; the model represents a finite one by
  the rational number it denotes, and every floating-point operation computes the exact
  result and rounds it to the nearest number with a 53-bit significand, ties to even
  (\<open>rnd\<close>). The exponent range is not bounded in the model, so overflow to infinity,
  subnormal numbers and NaN are outside it.
\<close>

function bit_length :: "int \<Rightarrow> int" where
  "bit_length n = (if n \<le> 0 then 0 else 1 + bit_length (n div 2))"
  by pat_completeness auto
termination
  by (relation "measure nat") auto

declare bit_length.simps [simp del]

definition pow2 :: "int \<Rightarrow> rat" where
  "pow2 e = (if 0 \<le> e then 2 ^ nat e else 1 / 2 ^ nat (- e))"

text \<open>\<open>ilog2 x\<close> is the integer \<open>k\<close> with \<open>2 ^ k \<le> \<bar>x\<bar> < 2 ^ (k + 1)\<close>, for \<open>x \<noteq> 0\<close>.\<close>

definition ilog2 :: "rat \<Rightarrow> int" where
  "ilog2 x = (if 1 \<le> \<bar>x\<bar> then bit_length \<lfloor>\<bar>x\<bar>\<rfloor> - 1
              else - bit_length (\<lceil>1 / \<bar>x\<bar>\<rceil> - 1))"

definition round_half_even :: "rat \<Rightarrow> int" where
  "round_half_even q =
     (let f = \<lfloor>q\<rfloor>; r = q - of_int f
      in if r < 1 / 2 then f else if 1 / 2 < r then f + 1
         else if even f then f else f + 1)"

definition rnd :: "rat \<Rightarrow> rat" where
  "rnd x = (if x = 0 then 0
            else let e = ilog2 x - 52
                 in of_int (round_half_even (x / pow2 e)) * pow2 e)"

datatype pynum = PyInt int | PyFloat rat

text \<open>The mathematical value of a number, and \<^verbatim>\<open>float(x)\<close>.\<close>

fun num_val :: "pynum \<Rightarrow> rat" where
  "num_val (PyInt n) = of_int n"
| "num_val (PyFloat x) = x"

fun py_float :: "pynum \<Rightarrow> rat" where
  "py_float (PyInt n) = rnd (of_int n)"
| "py_float (PyFloat x) = x"

text \<open>
  \<^verbatim>\<open>a + b\<close>, \<^verbatim>\<open>a - b\<close>, \<^verbatim>\<open>a * b\<close>: exact on two ints; otherwise both operands
  are converted to float and the result is rounded.
\<close>

fun py_add :: "pynum \<Rightarrow> pynum \<Rightarrow> pynum" where
  "py_add (PyInt a) (PyInt b) = PyInt (a + b)"
| "py_add a b = PyFloat (rnd (py_float a + py_float b))"

fun py_sub :: "pynum \<Rightarrow> pynum \<Rightarrow> pynum" where
  "py_sub (PyInt a) (PyInt b) = PyInt (a - b)"
| "py_sub a b = PyFloat (rnd (py_float a - py_float b))"

fun py_mul :: "pynum \<Rightarrow> pynum \<Rightarrow> pynum" where
  "py_mul (PyInt a) (PyInt b) = PyInt (a * b)"
| "py_mul a b = PyFloat (rnd (py_float a * py_float b))"

text \<open>\<^verbatim>\<open>int(x)\<close> truncates a float towards zero.\<close>

fun py_int :: "pynum \<Rightarrow> int" where
  "py_int (PyInt n) = n"
| "py_int (PyFloat x) = (if 0 \<le> x then \<lfloor>x\<rfloor> else \<lceil>x\<rceil>)"

text \<open>
  \<^verbatim>\<open>10 ** e\<close> for an int \<open>e\<close>: an int when \<open>e \<ge> 0\<close>; for a negative exponent Python
  computes \<^verbatim>\<open>float(10) ** float(e)\<close>, taken here as the correctly rounded power.
\<close>

definition py_pow10 :: "int \<Rightarrow> pynum" where
  "py_pow10 e = (if 0 \<le> e then PyInt (10 ^ nat e)
                 else PyFloat (rnd (1 / 10 ^ nat (- e))))"

text \<open>\<^verbatim>\<open>a < b\<close> compares the exact values, also between an int and a float.\<close>

definition py_lt :: "pynum \<Rightarrow> pynum \<Rightarrow> bool" where
  "py_lt a b = (num_val a < num_val b)"

text \<open>
  \<^verbatim>\<open>np.median([a, b])\<close> of two floats is the mean of the two: their rounded sum,
  divided by two.
\<close>

definition np_median :: "rat \<Rightarrow> rat \<Rightarrow> rat" where
  "np_median a b = rnd (rnd (a + b) / 2)"

text \<open>
  A measure of accuracy, used to relate the rounded arithmetic to the exact one: \<open>x\<close> is
  within \<open>n\<close> roundings of \<open>y\<close> when its relative distance from \<open>y\<close> is at most
  \<open>(1 + 2^-53)^n - 1\<close>.
\<close>

definition rel_close :: "nat \<Rightarrow> rat \<Rightarrow> rat \<Rightarrow> bool" where
  "rel_close n x y = (\<bar>x - y\<bar> \<le> \<bar>y\<bar> * ((1 + 1 / 2 ^ 53) ^ n - 1))"

subsection \<open>Python values and exceptions\<close>

text \<open>
  The values a request dictionary holds: numbers, strings, booleans, a swap path (a list
  of strings) and \<^verbatim>\<open>None\<close>.
\<close>

datatype pyval = Num pynum | Str string | Bool bool | StrList "string list" | NoneVal

text \<open>
  Every \<^verbatim>\<open>raise\<close> of the source is a value of \<open>exn\<close>; a function that may raise
  returns \<open>exn + 'a\<close> with \<open>Inl\<close> for the exception. \<open>KeyError\<close> carries the missing
  key, the others their message.
\<close>

datatype exn =
    Exception string
  | KeyError pyval
  | AttributeError string
  | TypeError string
  | ValueError string

subsection \<open>The oracle snapshot\<close>

text \<open>
  \<^verbatim>\<open>prices[token]\<close> is an entry with the decimal strings \<^verbatim>\<open>maxPriceFull\<close> and
  \<^verbatim>\<open>minPriceFull\<close>; the model holds the rational each string denotes, and
  \<^verbatim>\<open>float(s)\<close> rounds it.
\<close>

record price_entry =
  maxPriceFull :: rat
  minPriceFull :: rat

type_synonym oracle_prices = "string \<rightharpoonup> price_entry"

definition median_price :: "price_entry \<Rightarrow> pynum" where
  "median_price entry = PyFloat (np_median (rnd (maxPriceFull entry)) (rnd (minPriceFull entry)))"

subsection \<open>\<^verbatim>\<open>order.py\<close>: the fields of \<^verbatim>\<open>Order\<close> and \<^verbatim>\<open>Order._get_prices\<close>\<close>

text \<open>
  The gas estimator stored by \<^verbatim>\<open>determine_gas_limits\<close> is a contract function of the
  data store, identified by its key; \<open>None\<close> is the attribute that was never set.
\<close>

datatype estimator = DataStoreUint string

text \<open>\<^verbatim>\<open>ConfigManager\<close> of \<^verbatim>\<open>gmx_utils.py\<close>.\<close>

record config_manager =
  chain :: string
  rpc :: string
  chain_id :: int
  user_wallet_address :: string
  private_key :: string

type_synonym gas_limits_table = "string \<rightharpoonup> estimator"

record order =
  config :: config_manager
  index_token_address :: string
  is_long :: bool
  slippage_percent :: pynum
  max_fee_per_gas :: pynum
  debug_mode :: bool
  gas_limits :: "gas_limits_table option"
  gas_limits_order_type :: "estimator option"

text \<open>
  Modelled from the spec: \<^verbatim>\<open>PRECISION\<close> is imported from \<^verbatim>\<open>gmx_utils\<close>, whose
  file does not define it; the spec scales prices by \<open>10^(token_decimals - 30)\<close>.
\<close>

definition PRECISION :: int where
  "PRECISION = 30"

text \<open>
  The local variable \<^verbatim>\<open>slippage\<close> of \<^verbatim>\<open>_get_prices\<close> (lines 131 to 136), which the
  source prints as the slippage-adjusted price.
\<close>

definition slippage_price :: "order \<Rightarrow> pynum \<Rightarrow> bool \<Rightarrow> bool \<Rightarrow> pynum" where
  "slippage_price self price is_open is_close =
     (if is_open then
        (if is_long self then py_mul price (py_add (PyInt 1) (slippage_percent self))
         else py_mul price (py_sub (PyInt 1) (slippage_percent self)))
      else if is_close then
        (if is_long self then py_mul price (py_sub (PyInt 1) (slippage_percent self))
         else py_mul price (py_add (PyInt 1) (slippage_percent self)))
      else PyInt 0)"

text \<open>
  \<^verbatim>\<open>_get_prices\<close> returns \<^verbatim>\<open>(price, int(slippage), acceptable_price_in_usd)\<close>. A token
  missing from the snapshot raises \<^verbatim>\<open>KeyError\<close>, which the handler prints and raises
  again. The parameter \<^verbatim>\<open>is_swap\<close> is not read by the body.
\<close>

definition get_prices ::
  "order \<Rightarrow> int \<Rightarrow> oracle_prices \<Rightarrow> bool \<Rightarrow> bool \<Rightarrow> bool \<Rightarrow> exn + (pynum \<times> int \<times> pynum)" where
  "get_prices self decimals prices is_open is_close swap =
     (case prices (index_token_address self) of
        None \<Rightarrow> Inl (KeyError (Str (index_token_address self)))
      | Some entry \<Rightarrow>
          let price = median_price entry;
              slippage = slippage_price self price is_open is_close;
              acceptable_price_in_usd =
                py_mul (PyInt (py_int slippage)) (py_pow10 (decimals - PRECISION))
          in Inr (price, py_int slippage, acceptable_price_in_usd))"

subsection \<open>The ledger gateway\<close>

text \<open>
  The chain state the pipeline reads: nonces, balances, allowances and the data store
  that holds the gas-limit parameters. Token and owner addresses are strings.
\<close>

record ledger =
  transaction_count :: "string \<Rightarrow> int"
  native_balance :: "string \<Rightarrow> int"
  token_balance :: "string \<Rightarrow> string \<Rightarrow> int"
  token_allowance :: "string \<Rightarrow> string \<Rightarrow> string \<Rightarrow> int"
  data_store :: "string \<Rightarrow> int"

text \<open>The encoded contract call of a transaction, kept symbolic.\<close>

datatype calldata = Multicall "string list" | Approve string int

text \<open>The dictionary \<^verbatim>\<open>build_transaction\<close> returns.\<close>

record raw_txn =
  txn_to :: string
  txn_data :: calldata
  txn_value :: int
  txn_chainId :: int
  txn_gas :: int
  txn_maxFeePerGas :: int
  txn_maxPriorityFeePerGas :: int
  txn_nonce :: int

text \<open>
  The calls that matter to the claims are recorded in a trace: a raw transaction that was
  built, a call of \<^verbatim>\<open>sign_transaction\<close> and a call of
  \<^verbatim>\<open>send_raw_transaction\<close> (recorded when it is invoked, whatever it answers).
\<close>

datatype event = Built raw_txn | SignCall raw_txn | SendCall string

record world =
  led :: ledger
  trace :: "event list"

text \<open>
  The web3 connection and the signing service are outside the repository; the model takes
  their behaviour as a parameter. \<open>encode_call\<close> is the ABI validation and encoding of a
  contract call (\<open>Some e\<close>: it raises \<open>e\<close>), \<open>send_raw_transaction\<close> answers with the
  transaction hash and the ledger after the broadcast, or raises.
\<close>

record node =
  to_checksum_address :: "string \<Rightarrow> exn + string"
  encode_call :: "calldata \<Rightarrow> exn option"
  sign_transaction :: "raw_txn \<Rightarrow> string \<Rightarrow> exn + string"
  send_raw_transaction :: "string \<Rightarrow> ledger \<Rightarrow> exn + (string \<times> ledger)"
  exchange_router :: string

text \<open>\<^verbatim>\<open>estimator.call()\<close>: a read of the data store.\<close>

fun call_estimator :: "estimator \<Rightarrow> ledger \<Rightarrow> int" where
  "call_estimator (DataStoreUint k) L = data_store L k"

definition record_event :: "event \<Rightarrow> world \<Rightarrow> world" where
  "record_event e w = w\<lparr>trace := trace w @ [e]\<rparr>"

subsection \<open>\<^verbatim>\<open>create_increase_order.py\<close>, \<^verbatim>\<open>create_decrease_order.py\<close>: \<^verbatim>\<open>determine_gas_limits\<close>\<close>

text \<open>
  \<^verbatim>\<open>Order.determine_gas_limits\<close> is \<^verbatim>\<open>pass\<close>; the two subclasses store the table
  that \<^verbatim>\<open>get_gas_limits(datastore)\<close> returns and its entry for their kind. The table
  is a parameter: \<^verbatim>\<open>gas_utils\<close> is not among the source files. A kind missing from
  the table raises \<^verbatim>\<open>KeyError\<close>, after \<^verbatim>\<open>_gas_limits\<close> was stored.
\<close>

datatype order_class = BaseOrder | IncreaseOrder | DecreaseOrder

fun determine_gas_limits :: "order_class \<Rightarrow> gas_limits_table \<Rightarrow> order \<Rightarrow> (exn + unit) \<times> order" where
  "determine_gas_limits BaseOrder tbl self = (Inr (), self)"
| "determine_gas_limits IncreaseOrder tbl self =
     (case tbl ''increase_order'' of
        None \<Rightarrow> (Inl (KeyError (Str ''increase_order'')), self\<lparr>gas_limits := Some tbl\<rparr>)
      | Some est \<Rightarrow>
          (Inr (), self\<lparr>gas_limits := Some tbl, gas_limits_order_type := Some est\<rparr>))"
| "determine_gas_limits DecreaseOrder tbl self =
     (case tbl ''decrease_order'' of
        None \<Rightarrow> (Inl (KeyError (Str ''decrease_order'')), self\<lparr>gas_limits := Some tbl\<rparr>)
      | Some est \<Rightarrow>
          (Inr (), self\<lparr>gas_limits := Some tbl, gas_limits_order_type := Some est\<rparr>))"

subsection \<open>\<^verbatim>\<open>order.py\<close>: \<^verbatim>\<open>Order._submit_transaction\<close>\<close>

text \<open>
  The body of the \<^verbatim>\<open>try\<close> statement (lines 97 to 114); \<open>Inl e\<close> is an exception
  raised inside it. The contract call is validated first, then the dictionary of
  transaction fields is evaluated: reading \<^verbatim>\<open>self._gas_limits_order_type\<close> raises
  \<^verbatim>\<open>AttributeError\<close> when \<^verbatim>\<open>determine_gas_limits\<close> never set it, and the
  estimator is called twice. Signing and sending are both under
  \<^verbatim>\<open>if not self.debug_mode\<close>.
\<close>

definition submit_try ::
  "node \<Rightarrow> order \<Rightarrow> int \<Rightarrow> string list \<Rightarrow> int \<Rightarrow> world \<Rightarrow> (exn + unit) \<times> world" where
  "submit_try nd self value_amount multicall_args nonce w =
     (case encode_call nd (Multicall multicall_args) of
        Some e \<Rightarrow> (Inl e, w)
      | None \<Rightarrow>
        (case gas_limits_order_type self of
           None \<Rightarrow> (Inl (AttributeError ''_gas_limits_order_type''), w)
         | Some est \<Rightarrow>
             let raw_txn = \<lparr>txn_to = exchange_router nd,
                            txn_data = Multicall multicall_args,
                            txn_value = value_amount,
                            txn_chainId = chain_id (config self),
                            txn_gas = call_estimator est (led w) + call_estimator est (led w),
                            txn_maxFeePerGas = py_int (max_fee_per_gas self),
                            txn_maxPriorityFeePerGas = 0,
                            txn_nonce = nonce\<rparr>;
                 w1 = record_event (Built raw_txn) w
             in if \<not> debug_mode self then
                  (case sign_transaction nd raw_txn (private_key (config self)) of
                     Inl e \<Rightarrow> (Inl e, record_event (SignCall raw_txn) w1)
                   | Inr txn \<Rightarrow>
                       let w2 = record_event (SendCall txn) (record_event (SignCall raw_txn) w1)
                       in (case send_raw_transaction nd txn (led w2) of
                             Inl e \<Rightarrow> (Inl e, w2)
                           | Inr (tx_hash, L) \<Rightarrow> (Inr (), w2\<lparr>led := L\<rparr>)))
                else (Inr (), w1)))"

text \<open>
  \<^verbatim>\<open>_submit_transaction\<close>: the checksum conversion and the nonce read are outside the
  \<^verbatim>\<open>try\<close>; the handler \<^verbatim>\<open>except Exception as e: print(...)\<close> ends the function
  normally, so the result of the \<^verbatim>\<open>try\<close> body is dropped and the function returns
  \<^verbatim>\<open>None\<close> either way.
\<close>

definition submit_transaction ::
  "node \<Rightarrow> order \<Rightarrow> string \<Rightarrow> int \<Rightarrow> string list \<Rightarrow> world \<Rightarrow> (exn + unit) \<times> world" where
  "submit_transaction nd self user_wallet value_amount multicall_args w =
     (case to_checksum_address nd user_wallet of
        Inl e \<Rightarrow> (Inl e, w)
      | Inr wallet_address \<Rightarrow>
          let nonce = transaction_count (led w) wallet_address
          in (Inr (), snd (submit_try nd self value_amount multicall_args nonce w)))"

subsection \<open>\<^verbatim>\<open>approve_token_for_spend.py\<close>: \<^verbatim>\<open>check_if_approved\<close>\<close>

definition WETH_ARBITRUM :: string where
  "WETH_ARBITRUM = ''0x82aF49447D8a07e3bd95BD0d56f35241523fBab1''"

text \<open>The one-entry alias applied to \<^verbatim>\<open>token_to_approve\<close> (lines 47 to 49).\<close>

definition remap_token :: "string \<Rightarrow> string" where
  "remap_token token_to_approve =
     (if token_to_approve = ''0x47904963fc8b2340414262125aF798B9655E58Cd''
      then ''0x2f2a2543B76A4166549F7aaB2e75Bef0aefC5B0f'' else token_to_approve)"

text \<open>
  The approval branch (lines 103 to 140): nonce read, build, sign, send; every exception
  propagates.
\<close>

definition approve_spender ::
  "node \<Rightarrow> config_manager \<Rightarrow> string \<Rightarrow> string \<Rightarrow> string \<Rightarrow> int \<Rightarrow> pynum \<Rightarrow> world
     \<Rightarrow> (exn + unit) \<times> world" where
  "approve_spender nd cfg token_to_approve user_checksum_address spender_checksum_address
       amount_of_tokens_to_spend max_fee w =
     (let nonce = transaction_count (led w) user_checksum_address
      in case encode_call nd (Approve spender_checksum_address amount_of_tokens_to_spend) of
           Some e \<Rightarrow> (Inl e, w)
         | None \<Rightarrow>
             let raw_txn = \<lparr>txn_to = token_to_approve,
                            txn_data = Approve spender_checksum_address amount_of_tokens_to_spend,
                            txn_value = 0,
                            txn_chainId = chain_id cfg,
                            txn_gas = 4000000,
                            txn_maxFeePerGas = py_int max_fee,
                            txn_maxPriorityFeePerGas = 0,
                            txn_nonce = nonce\<rparr>;
                 w1 = record_event (SignCall raw_txn) (record_event (Built raw_txn) w)
             in case sign_transaction nd raw_txn (private_key cfg) of
                  Inl e \<Rightarrow> (Inl e, w1)
                | Inr txn \<Rightarrow>
                    let w2 = record_event (SendCall txn) w1
                    in (case send_raw_transaction nd txn (led w2) of
                          Inl e \<Rightarrow> (Inl e, w2)
                        | Inr (tx_hash, L) \<Rightarrow> (Inr (), w2\<lparr>led := L\<rparr>)))"

text \<open>
  \<^verbatim>\<open>check_if_approved\<close>. \<^verbatim>\<open>convert_to_checksum_address\<close> is imported from
  \<^verbatim>\<open>gmx_utils\<close>, whose file does not define it: it is the node's conversion. The
  token contract object is created at the remapped, unconverted address. The allowance is
  read once; both tests after it use that value.
\<close>

definition check_if_approved ::
  "node \<Rightarrow> config_manager \<Rightarrow> string \<Rightarrow> string \<Rightarrow> int \<Rightarrow> pynum \<Rightarrow> bool \<Rightarrow> world
     \<Rightarrow> (exn + unit) \<times> world" where
  "check_if_approved nd cfg spender token amount_of_tokens_to_spend max_fee approve w =
     (let token_to_approve = remap_token token
      in case to_checksum_address nd spender of
           Inl e \<Rightarrow> (Inl e, w)
         | Inr spender_checksum_address \<Rightarrow>
       (case to_checksum_address nd (user_wallet_address cfg) of
           Inl e \<Rightarrow> (Inl e, w)
         | Inr user_checksum_address \<Rightarrow>
       (case to_checksum_address nd token_to_approve of
           Inl e \<Rightarrow> (Inl e, w)
         | Inr token_checksum_address \<Rightarrow>
           let balance_of =
                 (if token_checksum_address = WETH_ARBITRUM
                  then native_balance (led w) user_checksum_address
                  else token_balance (led w) token_to_approve user_checksum_address)
           in if balance_of < amount_of_tokens_to_spend
              then (Inl (Exception ''Insufficient balance!''), w)
              else
                let amount_approved =
                      token_allowance (led w) token_to_approve user_checksum_address
                        spender_checksum_address;
                    (r, w1) =
                      (if amount_approved < amount_of_tokens_to_spend \<and> approve
                       then approve_spender nd cfg token_to_approve user_checksum_address
                              spender_checksum_address amount_of_tokens_to_spend max_fee w
                       else (Inr (), w))
                in case r of
                     Inl e \<Rightarrow> (Inl e, w1)
                   | Inr u \<Rightarrow>
                       if amount_approved < amount_of_tokens_to_spend \<and> \<not> approve
                       then (Inl (Exception ''Token not approved for spend, please allow first!''), w1)
                       else (Inr (), w1))))"

text \<open>
  \<^verbatim>\<open>Order.check_for_approval\<close>: the spender is the router in \<^verbatim>\<open>contract_map\<close> (not in
  the source files, a parameter) and \<^verbatim>\<open>approve=True\<close>.
\<close>

definition check_for_approval ::
  "node \<Rightarrow> order \<Rightarrow> string \<Rightarrow> string \<Rightarrow> int \<Rightarrow> world \<Rightarrow> (exn + unit) \<times> world" where
  "check_for_approval nd self syntheticsrouter collateral_address
       initial_collateral_delta_amount w =
     check_if_approved nd (config self) syntheticsrouter collateral_address
       initial_collateral_delta_amount (max_fee_per_gas self) True w"

subsection \<open>\<^verbatim>\<open>gmx_utils.py\<close>: \<^verbatim>\<open>get_tokens_address_dict\<close>\<close>

type_synonym pydict = "string \<rightharpoonup> pyval"

record token_info =
  address :: string
  symbol :: string
  decimals :: int

type_synonym token_dict = "string \<rightharpoonup> token_info"

text \<open>
  What the parser reads from outside. \<open>fetch_tokens\<close> is the HTTP request of
  \<^verbatim>\<open>get_tokens_address_dict\<close> (\<open>None\<close>: a \<^verbatim>\<open>RequestException\<close>) and
  \<open>get_recent_prices\<close> the oracle snapshot of a chain. The methods the class calls but
  the source files do not define are parameters too: \<^verbatim>\<open>find_key_by_symbol\<close>,
  \<^verbatim>\<open>find_market_key_by_index_address\<close> (with \<^verbatim>\<open>self.markets\<close>), the handlers of the
  other missing keys, \<^verbatim>\<open>calculate_missing_position_size_info_keys\<close> and
  \<^verbatim>\<open>_check_if_max_leverage_exceeded\<close>. Like the two handlers the source shows, they
  work on \<^verbatim>\<open>self.parameters_dict\<close> in place: each maps the dictionary to the updated
  dictionary and the exception it raised, if any.
\<close>

record parser_env =
  fetch_tokens :: "string \<Rightarrow> token_info list option"
  get_recent_prices :: "pyval \<Rightarrow> exn + oracle_prices"
  find_key_by_symbol :: "token_dict \<Rightarrow> pyval \<Rightarrow> exn + pyval"
  find_market_key_by_index_address :: "pyval \<Rightarrow> exn + pyval"
  handle_missing_other :: "string \<Rightarrow> pydict \<Rightarrow> exn option \<times> pydict"
  calculate_missing_position_size_info_keys :: "pydict \<Rightarrow> exn option \<times> pydict"
  check_if_max_leverage_exceeded :: "pydict \<Rightarrow> exn option \<times> pydict"

text \<open>Sequencing of calls that may raise.\<close>

definition then_do :: "exn + 'a \<Rightarrow> ('a \<Rightarrow> exn + 'b) \<Rightarrow> exn + 'b" where
  "then_do r f = (case r of Inl e \<Rightarrow> Inl e | Inr x \<Rightarrow> f x)"

text \<open>\<^verbatim>\<open>d[k]\<close> on a request dictionary, and on a dictionary keyed by address.\<close>

definition getitem :: "pydict \<Rightarrow> string \<Rightarrow> exn + pyval" where
  "getitem d k = (case d k of None \<Rightarrow> Inl (KeyError (Str k)) | Some v \<Rightarrow> Inr v)"

definition getitem_by :: "(string \<rightharpoonup> 'a) \<Rightarrow> pyval \<Rightarrow> exn + 'a" where
  "getitem_by m key =
     (case key of
        Str a \<Rightarrow> (case m a of None \<Rightarrow> Inl (KeyError key) | Some x \<Rightarrow> Inr x)
      | StrList l \<Rightarrow> Inl (TypeError ''unhashable type: list'')
      | _ \<Rightarrow> Inl (KeyError key))"

text \<open>
  \<^verbatim>\<open>url[chain]\<close> raises \<^verbatim>\<open>KeyError\<close> for a chain other than the two listed; that is
  not a \<^verbatim>\<open>RequestException\<close>, so it propagates. A failed request gives the empty
  dictionary. In the dictionary comprehension a later token overwrites an earlier one
  with the same address.
\<close>

definition get_tokens_address_dict :: "parser_env \<Rightarrow> pyval \<Rightarrow> exn + token_dict" where
  "get_tokens_address_dict env c =
     (case c of
        Str name \<Rightarrow>
          if name = ''arbitrum'' \<or> name = ''avalanche'' then
            (case fetch_tokens env name of
               None \<Rightarrow> Inr Map.empty
             | Some token_infos \<Rightarrow>
                 Inr (map_of (rev (map (\<lambda>token_info. (address token_info, token_info))
                                       token_infos))))
          else Inl (KeyError c)
      | StrList l \<Rightarrow> Inl (TypeError ''unhashable type: list'')
      | _ \<Rightarrow> Inl (KeyError c))"

subsection \<open>\<^verbatim>\<open>order_argument_parser.py\<close>: \<^verbatim>\<open>OrderArgumentParser\<close>\<close>

text \<open>
  A number in arithmetic: a \<^verbatim>\<open>bool\<close> counts as 0 or 1. Multiplying a string, a list
  or \<^verbatim>\<open>None\<close> is modelled as \<^verbatim>\<open>TypeError\<close> (Python's repetition of a string or
  list by an int is left out: the size and collateral fields of a request are numbers).
\<close>

fun as_number :: "pyval \<Rightarrow> exn + pynum" where
  "as_number (Num n) = Inr n"
| "as_number (Bool b) = Inr (PyInt (if b then 1 else 0))"
| "as_number v = Inl (TypeError ''unsupported operand type(s) for *'')"

text \<open>
  Dictionaries are objects: the caller's dictionary lives in a store, and the parser holds
  a reference to it in \<^verbatim>\<open>self.parameters_dict\<close> (\<open>None\<close> before the first call).
  \<open>required_keys\<close> is \<open>None\<close> when no kind flag was set: \<^verbatim>\<open>__init__\<close> then never
  assigns the attribute.
\<close>

type_synonym ref = nat

type_synonym heap = "ref \<Rightarrow> pydict"

record parser =
  is_increase :: bool
  is_decrease :: bool
  is_swap :: bool
  required_keys :: "string list option"
  parameters_dict :: "ref option"

definition OrderArgumentParser :: "bool \<Rightarrow> bool \<Rightarrow> bool \<Rightarrow> parser" where
  "OrderArgumentParser increase decrease swap =
     \<lparr>is_increase = increase, is_decrease = decrease, is_swap = swap,
      required_keys =
        (if increase then
           Some [''chain'', ''index_token_address'', ''market_key'', ''start_token_address'',
                 ''collateral_address'', ''swap_path'', ''is_long'', ''size_delta_usd'',
                 ''initial_collateral_delta'', ''slippage_percent'']
         else if decrease then
           Some [''chain'', ''index_token_address'', ''market_key'', ''start_token_address'',
                 ''collateral_address'', ''is_long'', ''size_delta_usd'',
                 ''initial_collateral_delta'', ''slippage_percent'']
         else if swap then
           Some [''chain'', ''start_token_address'', ''out_token_address'',
                 ''initial_collateral_delta'', ''swap_path'', ''slippage_percent'']
         else None),
      parameters_dict = None\<rparr>"

definition missing_base_key_methods :: "string list" where
  "missing_base_key_methods =
     [''chain'', ''index_token_address'', ''market_key'', ''start_token_address'',
      ''out_token_address'', ''collateral_address'', ''swap_path'', ''is_long'',
      ''slippage_percent'']"

definition determine_missing_keys :: "parser \<Rightarrow> pydict \<Rightarrow> exn + string list" where
  "determine_missing_keys self d =
     (case required_keys self of
        None \<Rightarrow> Inl (AttributeError ''required_keys'')
      | Some keys \<Rightarrow> Inr (filter (\<lambda>key. d key = None) keys))"

definition handle_missing_chain :: "pydict \<Rightarrow> exn option \<times> pydict" where
  "handle_missing_chain d =
     (Some (Exception ''Please pass chain name in parameters dictionary!''), d)"

definition handle_missing_index_token_address :: "parser_env \<Rightarrow> pydict \<Rightarrow> exn option \<times> pydict" where
  "handle_missing_index_token_address env d =
     (case d ''index_token_symbol'' of
        None \<Rightarrow> (Some (Exception ''Index Token Address and Symbol not provided!''), d)
      | Some s \<Rightarrow>
          let token_symbol = (if s = Str ''BTC'' then Str ''WBTC.b'' else s)
          in case then_do (getitem d ''chain'') (\<lambda>c.
                  then_do (get_tokens_address_dict env c) (\<lambda>tokens.
                  find_key_by_symbol env tokens token_symbol)) of
               Inl e \<Rightarrow> (Some e, d)
             | Inr a \<Rightarrow> (None, d(''index_token_address'' \<mapsto> a)))"

definition handle_missing_market_key :: "parser_env \<Rightarrow> pydict \<Rightarrow> exn option \<times> pydict" where
  "handle_missing_market_key env d =
     (case then_do (getitem d ''index_token_address'') (\<lambda>a.
             find_market_key_by_index_address env
               (if a = Str ''0x2f2a2543B76A4166549F7aaB2e75Bef0aefC5B0f''
                then Str ''0x47904963fc8b2340414262125aF798B9655E58Cd'' else a)) of
        Inl e \<Rightarrow> (Some e, d)
      | Inr k \<Rightarrow> (None, d(''market_key'' \<mapsto> k)))"

text \<open>The dispatch through \<^verbatim>\<open>self.missing_base_key_methods\<close>.\<close>

definition handle_missing :: "parser_env \<Rightarrow> string \<Rightarrow> pydict \<Rightarrow> exn option \<times> pydict" where
  "handle_missing env key d =
     (if key = ''chain'' then handle_missing_chain d
      else if key = ''index_token_address'' then handle_missing_index_token_address env d
      else if key = ''market_key'' then handle_missing_market_key env d
      else handle_missing_other env key d)"

text \<open>A method that works on \<^verbatim>\<open>self.parameters_dict\<close> in place.\<close>

definition on_parameters_dict ::
  "parser \<Rightarrow> (pydict \<Rightarrow> exn option \<times> pydict) \<Rightarrow> heap \<Rightarrow> exn option \<times> heap" where
  "on_parameters_dict self f h =
     (case parameters_dict self of
        None \<Rightarrow> (Some (TypeError ''NoneType object is not subscriptable''), h)
      | Some r \<Rightarrow> (case f (h r) of (e, d) \<Rightarrow> (e, h(r := d))))"

text \<open>
  The loop over the missing keys (lines 96 to 99): a key without a handler is skipped,
  the first exception ends the loop.
\<close>

fun handle_missing_keys ::
  "parser_env \<Rightarrow> parser \<Rightarrow> string list \<Rightarrow> heap \<Rightarrow> exn option \<times> heap" where
  "handle_missing_keys env self [] h = (None, h)"
| "handle_missing_keys env self (missing_key # keys) h =
     (if missing_key \<in> set missing_base_key_methods then
        (case on_parameters_dict self (handle_missing env missing_key) h of
           (Some e, h1) \<Rightarrow> (Some e, h1)
         | (None, h1) \<Rightarrow> handle_missing_keys env self keys h1)
      else handle_missing_keys env self keys h)"

text \<open>
  \<^verbatim>\<open>_calculate_initial_collateral_usd\<close> (lines 176 to 200): the median of the two oracle
  prices, times \<open>10 ** (decimals - 30)\<close>, times the collateral delta.
\<close>

definition calculate_initial_collateral_usd :: "parser_env \<Rightarrow> pydict \<Rightarrow> exn + pynum" where
  "calculate_initial_collateral_usd env d =
     then_do (getitem d ''initial_collateral_delta'') (\<lambda>initial_collateral_delta_amount.
     then_do (getitem d ''chain'') (\<lambda>c.
     then_do (get_recent_prices env c) (\<lambda>prices.
     then_do (getitem d ''start_token_address'') (\<lambda>start_token_address.
     then_do (getitem_by prices start_token_address) (\<lambda>entry.
     then_do (get_tokens_address_dict env c) (\<lambda>tokens.
     then_do (getitem_by tokens start_token_address) (\<lambda>token_info.
     then_do (as_number initial_collateral_delta_amount) (\<lambda>amount.
       let oracle_factor = decimals token_info - 30;
           price = py_mul (median_price entry) (py_pow10 oracle_factor)
       in Inr (py_mul price amount)))))))))"

text \<open>
  \<^verbatim>\<open>_format_size_info\<close> (lines 202 to 218). The first assignment is done before the
  token lookup can raise, and the debug line at the end reads
  \<^verbatim>\<open>self.parameters_dict['size_delta']\<close>, which raises \<^verbatim>\<open>KeyError\<close> when the key was
  never set.
\<close>

definition format_size_info :: "parser_env \<Rightarrow> parser \<Rightarrow> pydict \<Rightarrow> exn option \<times> pydict" where
  "format_size_info env self d =
     (case (if \<not> is_swap self then
              (case then_do (getitem d ''size_delta_usd'') as_number of
                 Inl e \<Rightarrow> (Some e, d)
               | Inr size_delta_usd \<Rightarrow>
                   (None, d(''size_delta'' \<mapsto>
                      Num (PyInt (py_int (py_mul size_delta_usd (PyInt (10 ^ 30))))))))
            else (None, d)) of
        (Some e, d1) \<Rightarrow> (Some e, d1)
      | (None, d1) \<Rightarrow>
          (case then_do (getitem d1 ''chain'') (\<lambda>c.
                then_do (get_tokens_address_dict env c) (\<lambda>tokens.
                then_do (getitem d1 ''start_token_address'') (\<lambda>start_token_address.
                then_do (getitem_by tokens start_token_address) (\<lambda>token_info.
                then_do (getitem d1 ''initial_collateral_delta'') (\<lambda>v.
                then_do (as_number v) (\<lambda>initial_collateral_delta.
                  Inr (py_int (py_mul initial_collateral_delta
                                 (py_pow10 (decimals token_info)))))))))) of
             Inl e \<Rightarrow> (Some e, d1)
           | Inr scaled \<Rightarrow>
               let d2 = d1(''initial_collateral_delta'' \<mapsto> Num (PyInt scaled))
               in (case d2 ''size_delta'' of
                     None \<Rightarrow> (Some (KeyError (Str ''size_delta'')), d2)
                   | Some v \<Rightarrow> (None, d2))))"

text \<open>
  \<^verbatim>\<open>process_parameters_dictionary\<close>, in three parts. Lines 90 to 105: the missing keys
  are determined, \<^verbatim>\<open>self.parameters_dict\<close> is bound to the caller's dictionary, the
  handlers run, and for a non-swap order the size and leverage methods.
\<close>

definition resolve_missing ::
  "parser_env \<Rightarrow> parser \<Rightarrow> ref \<Rightarrow> heap \<Rightarrow> exn option \<times> parser \<times> heap" where
  "resolve_missing env self0 parameters h =
     (case determine_missing_keys self0 (h parameters) of
        Inl e \<Rightarrow> (Some e, self0, h)
      | Inr missing_keys \<Rightarrow>
          let self = self0\<lparr>parameters_dict := Some parameters\<rparr>
          in case handle_missing_keys env self missing_keys h of
               (Some e, h1) \<Rightarrow> (Some e, self, h1)
             | (None, h1) \<Rightarrow>
                 if \<not> is_swap self then
                   (case on_parameters_dict self
                           (calculate_missing_position_size_info_keys env) h1 of
                      (Some e, h2) \<Rightarrow> (Some e, self, h2)
                    | (None, h2) \<Rightarrow>
                        (case on_parameters_dict self (check_if_max_leverage_exceeded env) h2 of
                           (e, h3) \<Rightarrow> (e, self, h3)))
                 else (None, self, h1))"

text \<open>Lines 107 to 111: the collateral floor of an increase order; it reads only.\<close>

definition check_collateral :: "parser_env \<Rightarrow> parser \<Rightarrow> heap \<Rightarrow> exn option" where
  "check_collateral env self h =
     (if is_increase self then
        (case parameters_dict self of
           None \<Rightarrow> Some (TypeError ''NoneType object is not subscriptable'')
         | Some r \<Rightarrow>
             (case calculate_initial_collateral_usd env (h r) of
                Inl e \<Rightarrow> Some e
              | Inr initial_collateral_usd \<Rightarrow>
                  if py_lt initial_collateral_usd (PyInt 2)
                  then Some (Exception ''Position size must be backed by >$2 of collateral!'')
                  else None))
      else None)"

text \<open>Lines 113 to 117: the formatting, and \<^verbatim>\<open>return self.parameters_dict\<close>.\<close>

definition process_parameters_dictionary ::
  "parser_env \<Rightarrow> parser \<Rightarrow> ref \<Rightarrow> heap \<Rightarrow> (exn + ref option) \<times> parser \<times> heap" where
  "process_parameters_dictionary env self0 parameters h =
     (case resolve_missing env self0 parameters h of
        (Some e, self, h1) \<Rightarrow> (Inl e, self, h1)
      | (None, self, h1) \<Rightarrow>
          (case check_collateral env self h1 of
             Some e \<Rightarrow> (Inl e, self, h1)
           | None \<Rightarrow>
               (case on_parameters_dict self (format_size_info env self) h1 of
                  (Some e, h2) \<Rightarrow> (Inl e, self, h2)
                | (None, h2) \<Rightarrow> (Inr (parameters_dict self), self, h2))))"

subsection \<open>Reading a trace\<close>

fun built_txns :: "event list \<Rightarrow> raw_txn list" where
  "built_txns [] = []"
| "built_txns (Built r # es) = r # built_txns es"
| "built_txns (e # es) = built_txns es"

fun write_calls :: "event list \<Rightarrow> event list" where
  "write_calls [] = []"
| "write_calls (Built r # es) = write_calls es"
| "write_calls (e # es) = e # write_calls es"

fun count_sends :: "event list \<Rightarrow> nat" where
  "count_sends [] = 0"
| "count_sends (SendCall t # es) = Suc (count_sends es)"
| "count_sends (e # es) = count_sends es"

subsection \<open>Concrete inputs\<close>

text \<open>
  A token with 18 decimals quoted at 3000.000000000001 USD: the oracle's raw price
  carries \<open>30 - 18 = 12\<close> decimals.
\<close>

definition eth_token :: string where
  "eth_token = ''0x82aF49447D8a07e3bd95BD0d56f35241523fBab1''"

definition eth_oracle :: oracle_prices where
  "eth_oracle = [eth_token \<mapsto> \<lparr>maxPriceFull = 3000000000000001, minPriceFull = 3000000000000001\<rparr>]"

definition arbitrum_config :: config_manager where
  "arbitrum_config = \<lparr>chain = ''arbitrum'', rpc = ''https://arb1.arbitrum.io/rpc'',
     chain_id = 42161, user_wallet_address = ''0xA1'', private_key = ''0xkey''\<rparr>"

definition eth_order :: order where
  "eth_order = \<lparr>config = arbitrum_config,
     index_token_address = eth_token, is_long = True, slippage_percent = PyInt 0,
     max_fee_per_gas = PyFloat (27 / 2), debug_mode = False, gas_limits = None,
     gas_limits_order_type = None\<rparr>"

text \<open>
  A ledger, a gas-limit table and three nodes: one that accepts every broadcast, one that
  rejects every broadcast, and one on which an accepted approval sets the allowance.
\<close>

definition ledger0 :: ledger where
  "ledger0 = \<lparr>transaction_count = (\<lambda>a. 7),
     native_balance = (\<lambda>a. 1000),
     token_balance = (\<lambda>t a. 1000),
     token_allowance = (\<lambda>t a s. 0),
     data_store = (\<lambda>k. if k = ''increaseOrderGasLimit'' then 3000000 else 2500000)\<rparr>"

definition world0 :: world where
  "world0 = \<lparr>led = ledger0, trace = []\<rparr>"

definition gas_table0 :: gas_limits_table where
  "gas_table0 = [''increase_order'' \<mapsto> DataStoreUint ''increaseOrderGasLimit'',
                 ''decrease_order'' \<mapsto> DataStoreUint ''decreaseOrderGasLimit'']"

definition accepting_node :: node where
  "accepting_node = \<lparr>to_checksum_address = Inr,
     encode_call = (\<lambda>c. None),
     sign_transaction = (\<lambda>raw k. Inr ''0xsigned''),
     send_raw_transaction = (\<lambda>txn L. Inr (''0xhash'', L)),
     exchange_router = ''0xrouter''\<rparr>"

definition rejecting_node :: node where
  "rejecting_node = accepting_node
     \<lparr>send_raw_transaction := (\<lambda>txn L. Inl (ValueError ''nonce too low''))\<rparr>"

definition approving_node :: node where
  "approving_node = accepting_node
     \<lparr>sign_transaction := (\<lambda>raw k. case txn_data raw of
          Approve s a \<Rightarrow> Inr ''0xapprove500'' | Multicall cs \<Rightarrow> Inr ''0xsigned''),
      send_raw_transaction := (\<lambda>txn L.
          if txn = ''0xapprove500''
          then Inr (''0xhash'', L\<lparr>token_allowance := (\<lambda>t a s. 500)\<rparr>)
          else Inr (''0xhash'', L))\<rparr>"

definition increase_order0 :: order where
  "increase_order0 = snd (determine_gas_limits IncreaseOrder gas_table0 eth_order)"

definition raw_txn0 :: raw_txn where
  "raw_txn0 = \<lparr>txn_to = ''0xrouter'', txn_data = Multicall [''createOrder''],
     txn_value = 0, txn_chainId = 42161, txn_gas = 6000000, txn_maxFeePerGas = 13,
     txn_maxPriorityFeePerGas = 0, txn_nonce = 7\<rparr>"

definition approve_txn0 :: raw_txn where
  "approve_txn0 = \<lparr>txn_to = ''0xtoken'', txn_data = Approve ''0xrouter'' 500,
     txn_value = 0, txn_chainId = 42161, txn_gas = 4000000, txn_maxFeePerGas = 10,
     txn_maxPriorityFeePerGas = 0, txn_nonce = 7\<rparr>"

text \<open>
  A token registry, an oracle snapshot with USDC (6 decimals) at one dollar, helper
  methods that change nothing, and a complete increase request for 50 USDC of collateral.
\<close>

definition usdc_token :: string where
  "usdc_token = ''0xaf88d065e77c8cC2239327C5EDb3A432268e5831''"

definition tokens0 :: "token_info list" where
  "tokens0 = [\<lparr>address = usdc_token, symbol = ''USDC'', decimals = 6\<rparr>,
              \<lparr>address = eth_token, symbol = ''ETH'', decimals = 18\<rparr>]"

definition oracle0 :: oracle_prices where
  "oracle0 = [usdc_token \<mapsto> \<lparr>maxPriceFull = 1000000000000000000000000,
                                minPriceFull = 1000000000000000000000000\<rparr>]"

definition env0 :: parser_env where
  "env0 = \<lparr>fetch_tokens = (\<lambda>c. Some tokens0),
     get_recent_prices = (\<lambda>c. Inr oracle0),
     find_key_by_symbol = (\<lambda>tokens s. Inl (Exception ''symbol not found'')),
     find_market_key_by_index_address = (\<lambda>a. Inl (Exception ''market not found'')),
     handle_missing_other = (\<lambda>k d. (None, d)),
     calculate_missing_position_size_info_keys = (\<lambda>d. (None, d)),
     check_if_max_leverage_exceeded = (\<lambda>d. (None, d))\<rparr>"

definition request0 :: pydict where
  "request0 = [''chain'' \<mapsto> Str ''arbitrum'',
     ''index_token_address'' \<mapsto> Str eth_token,
     ''market_key'' \<mapsto> Str ''0x70d95587d40A2caf56bd97485aB3Eec10Bee6336'',
     ''start_token_address'' \<mapsto> Str usdc_token,
     ''collateral_address'' \<mapsto> Str usdc_token,
     ''swap_path'' \<mapsto> StrList [],
     ''is_long'' \<mapsto> Bool True,
     ''size_delta_usd'' \<mapsto> Num (PyInt 1000),
     ''initial_collateral_delta'' \<mapsto> Num (PyInt 50),
     ''slippage_percent'' \<mapsto> Num (PyFloat (3458764513820541 / 1152921504606846976))]"

definition heap_of :: "pydict \<Rightarrow> heap" where
  "heap_of d = (\<lambda>r. if r = 0 then d else Map.empty)"

definition increase_parser :: parser where
  "increase_parser = OrderArgumentParser True False False"

definition request_low :: pydict where
  "request_low = request0(''initial_collateral_delta'' \<mapsto> Num (PyInt 2))"

text \<open>The request after one run of the parser, and the store and parser it leaves.\<close>

definition request1 :: pydict where
  "request1 = request0(''size_delta'' \<mapsto> Num (PyInt (1000 * 10 ^ 30)),
                       ''initial_collateral_delta'' \<mapsto> Num (PyInt 50000000))"

definition increase_parser1 :: parser where
  "increase_parser1 = increase_parser\<lparr>parameters_dict := Some 0\<rparr>"

text \<open>
  The quote of the spec's scenario, bid 60000 and ask 60010, with a slippage of 0.003 (the
  binary64 number nearest to it), and a USDC quote with a spread around one dollar.
\<close>

definition btc_token :: string where
  "btc_token = ''0x47904963fc8b2340414262125aF798B9655E58Cd''"

definition btc_oracle :: oracle_prices where
  "btc_oracle = [btc_token \<mapsto> \<lparr>maxPriceFull = 60010, minPriceFull = 60000\<rparr>]"

definition btc_order :: order where
  "btc_order = eth_order\<lparr>index_token_address := btc_token,
     slippage_percent := PyFloat (3458764513820541 / 1152921504606846976)\<rparr>"

definition oracle_spread :: oracle_prices where
  "oracle_spread = [usdc_token \<mapsto> \<lparr>maxPriceFull = 1000200000000000000000000,
                                      minPriceFull = 999800000000000000000000\<rparr>]"

definition env_spread :: parser_env where
  "env_spread = env0\<lparr>get_recent_prices := (\<lambda>c. Inr oracle_spread)\<rparr>"

section \<open>Part II: the theorems\<close>

subsection \<open>Evaluating the rounding\<close>

lemma bit_length_numeral:
  "bit_length 0 = 0"
  "bit_length 1 = 1"
  "bit_length (numeral (Num.Bit0 n)) = 1 + bit_length (numeral n)"
  "bit_length (numeral (Num.Bit1 n)) = 1 + bit_length (numeral n)"
  "bit_length (- numeral n) = 0"
  by (subst bit_length.simps, simp add: bit_length.simps)+

lemma floor_rat_numeral_div:
  "\<lfloor>(numeral a :: rat) / numeral b\<rfloor> = numeral a div numeral b"
  using floor_divide_of_int_eq [of "numeral a" "numeral b", where ?'a = rat] by simp

lemma ceiling_rat_numeral_div:
  "\<lceil>(numeral a :: rat) / numeral b\<rceil> = - (- numeral a div numeral b)"
proof -
  have "\<lceil>(of_int (numeral a) :: rat) / of_int (numeral b)\<rceil>
          = - \<lfloor>of_int (- numeral a) / (of_int (numeral b) :: rat)\<rfloor>"
    by (simp add: ceiling_def)
  then show ?thesis
    unfolding floor_divide_of_int_eq by simp
qed

lemmas rnd_eval = rnd_def ilog2_def round_half_even_def pow2_def Let_def bit_length_numeral
  floor_rat_numeral_div ceiling_rat_numeral_div

subsection \<open>Accuracy of the rounding\<close>

lemma bit_length_bounds:
  "0 < n \<Longrightarrow> 2 ^ nat (bit_length n - 1) \<le> n \<and> n < 2 ^ nat (bit_length n) \<and> 0 < bit_length n"
proof (induction n rule: bit_length.induct)
  case (1 n)
  show ?case
  proof (cases "n = 1")
    case True
    then show ?thesis
      by (simp add: bit_length.simps [of 1] bit_length.simps [of 0])
  next
    case False
    with "1.prems" have h: "0 < n div 2" by simp
    have n: "\<not> n \<le> 0" using "1.prems" by simp
    have ih: "2 ^ nat (bit_length (n div 2) - 1) \<le> n div 2"
      "n div 2 < 2 ^ nat (bit_length (n div 2))" "0 < bit_length (n div 2)"
      using "1.IH" [OF n h] by simp_all
    have bl: "bit_length n = 1 + bit_length (n div 2)"
      using n by (simp add: bit_length.simps [of n])
    have e1: "nat (bit_length n - 1) = Suc (nat (bit_length (n div 2) - 1))"
      using bl ih(3) by simp
    have e2: "nat (bit_length n) = Suc (nat (bit_length (n div 2)))"
      using bl ih(3) by simp
    have "2 * 2 ^ nat (bit_length (n div 2) - 1) \<le> n"
      using ih(1) by linarith
    moreover have "n < 2 * 2 ^ nat (bit_length (n div 2))"
      using ih(2) by linarith
    ultimately show ?thesis
      using e1 e2 bl ih(3) by simp
  qed
qed

lemma pow2_powi: "pow2 e = 2 powi e"
  unfolding pow2_def power_int_def
  by (simp add: power_inverse inverse_eq_divide power_one_over)

lemma pow2_add: "pow2 (a + b) = pow2 a * pow2 b"
  unfolding pow2_powi by (simp add: power_int_add)

lemma pow2_pos: "0 < pow2 e"
  by (simp add: pow2_def)

lemma round_half_even_error: "\<bar>of_int (round_half_even q) - q\<bar> \<le> 1 / 2"
proof -
  have "of_int \<lfloor>q\<rfloor> \<le> q" "q < of_int \<lfloor>q\<rfloor> + 1"
    by linarith+
  then show ?thesis
    by (auto simp: round_half_even_def Let_def)
qed

lemma ilog2_lower:
  assumes "x \<noteq> 0"
  shows "pow2 (ilog2 x) \<le> \<bar>x\<bar>"
proof (cases "1 \<le> \<bar>x\<bar>")
  case True
  let ?n = "\<lfloor>\<bar>x\<bar>\<rfloor>"
  have n: "0 < ?n" using True by linarith
  have b: "2 ^ nat (bit_length ?n - 1) \<le> ?n" "0 < bit_length ?n"
    using bit_length_bounds [OF n] by simp_all
  have "pow2 (ilog2 x) = 2 ^ nat (bit_length ?n - 1)"
    using True b(2) by (simp add: ilog2_def pow2_def)
  also have "\<dots> = of_int (2 ^ nat (bit_length ?n - 1))"
    by simp
  also have "\<dots> \<le> of_int ?n"
    using b(1) by (simp only: of_int_le_iff)
  also have "\<dots> \<le> \<bar>x\<bar>"
    by linarith
  finally show ?thesis .
next
  case False
  then have lt: "\<bar>x\<bar> < 1" by simp
  have pos: "0 < \<bar>x\<bar>" using assms by simp
  let ?c = "\<lceil>1 / \<bar>x\<bar>\<rceil>"
  have "1 < 1 / \<bar>x\<bar>" using lt pos by simp
  then have c2: "2 \<le> ?c" by linarith
  then have n: "0 < ?c - 1" by simp
  have b: "?c - 1 < 2 ^ nat (bit_length (?c - 1))" "0 < bit_length (?c - 1)"
    using bit_length_bounds [OF n] by simp_all
  have "1 / \<bar>x\<bar> \<le> of_int ?c"
    by linarith
  also have "of_int ?c \<le> (of_int (2 ^ nat (bit_length (?c - 1))) :: rat)"
    using b(1) by (simp only: of_int_le_iff)
  finally have le: "1 / \<bar>x\<bar> \<le> 2 ^ nat (bit_length (?c - 1))"
    by simp
  have "pow2 (ilog2 x) = 1 / 2 ^ nat (bit_length (?c - 1))"
    using False b(2) by (simp add: ilog2_def pow2_def)
  also have "\<dots> \<le> \<bar>x\<bar>"
    using le pos by (simp add: field_simps)
  finally show ?thesis .
qed

lemma rnd_rel_error: "\<bar>rnd x - x\<bar> \<le> \<bar>x\<bar> / 2 ^ 53"
proof (cases "x = 0")
  case True
  then show ?thesis by (simp add: rnd_def)
next
  case False
  define e where "e = ilog2 x - 52"
  define m where "m = round_half_even (x / pow2 e)"
  have r: "rnd x = of_int m * pow2 e"
    using False by (simp add: rnd_def e_def m_def Let_def)
  have pe: "0 < pow2 e" by (rule pow2_pos)
  have "rnd x - x = (of_int m - x / pow2 e) * pow2 e"
    using pe r by (simp add: field_simps)
  then have "\<bar>rnd x - x\<bar> = \<bar>of_int m - x / pow2 e\<bar> * pow2 e"
    using pe by (simp add: abs_mult)
  also have "\<dots> \<le> (1 / 2) * pow2 e"
    using round_half_even_error [of "x / pow2 e"] pe
    unfolding m_def by (intro mult_right_mono) simp_all
  finally have b1: "\<bar>rnd x - x\<bar> \<le> pow2 e / 2"
    by simp
  have "pow2 (ilog2 x) = pow2 e * pow2 52"
    using pow2_add [of e 52] by (simp add: e_def)
  then have "pow2 e * 2 ^ 52 \<le> \<bar>x\<bar>"
    using ilog2_lower [OF False] by (simp add: pow2_def)
  then have "pow2 e / 2 \<le> \<bar>x\<bar> / 2 ^ 53"
    by simp
  then show ?thesis
    using b1 by linarith
qed


lemma rel_close_refl: "rel_close 0 x x"
  by (simp add: rel_close_def)

lemma rel_close_abs: "rel_close n x y \<Longrightarrow> \<bar>x\<bar> \<le> \<bar>y\<bar> * (1 + 1 / 2 ^ 53) ^ n"
proof -
  assume "rel_close n x y"
  then have "\<bar>x - y\<bar> \<le> \<bar>y\<bar> * (1 + 1 / 2 ^ 53) ^ n - \<bar>y\<bar>"
    by (simp add: rel_close_def algebra_simps)
  then show ?thesis
    by linarith
qed

lemma rel_close_mono:
  assumes "rel_close n x y" and "n \<le> m"
  shows "rel_close m x y"
proof -
  have "(1 + 1 / 2 ^ 53 :: rat) ^ n \<le> (1 + 1 / 2 ^ 53) ^ m"
    using assms(2) by (intro power_increasing) simp_all
  then have "\<bar>y\<bar> * ((1 + 1 / 2 ^ 53) ^ n - 1) \<le> \<bar>y\<bar> * ((1 + 1 / 2 ^ 53) ^ m - 1)"
    by (intro mult_left_mono) simp_all
  then show ?thesis
    using assms(1) unfolding rel_close_def by linarith
qed

lemma rel_close_rnd:
  assumes "rel_close n x y"
  shows "rel_close (Suc n) (rnd x) y"
proof -
  let ?A = "(1 + 1 / 2 ^ 53 :: rat) ^ n"
  have a: "\<bar>x\<bar> \<le> \<bar>y\<bar> * ?A"
    using assms by (rule rel_close_abs)
  have "\<bar>rnd x - y\<bar> \<le> \<bar>rnd x - x\<bar> + \<bar>x - y\<bar>"
    by linarith
  also have "\<dots> \<le> \<bar>x\<bar> / 2 ^ 53 + \<bar>y\<bar> * (?A - 1)"
    using rnd_rel_error [of x] assms unfolding rel_close_def by linarith
  also have "\<dots> \<le> (\<bar>y\<bar> * ?A) / 2 ^ 53 + \<bar>y\<bar> * (?A - 1)"
    using a by (simp add: divide_right_mono)
  also have "\<dots> = \<bar>y\<bar> * ((1 + 1 / 2 ^ 53) ^ Suc n - 1)"
    by (simp add: algebra_simps)
  finally show ?thesis
    unfolding rel_close_def .
qed

lemma rel_close_mult:
  assumes "rel_close n x1 y1" and "rel_close m x2 y2"
  shows "rel_close (n + m) (x1 * x2) (y1 * y2)"
proof -
  let ?A = "(1 + 1 / 2 ^ 53 :: rat) ^ n"
  let ?B = "(1 + 1 / 2 ^ 53 :: rat) ^ m"
  have A1: "1 \<le> ?A" and B1: "1 \<le> ?B"
    by (simp_all add: one_le_power)
  have d1: "\<bar>x1 - y1\<bar> \<le> \<bar>y1\<bar> * (?A - 1)" and d2: "\<bar>x2 - y2\<bar> \<le> \<bar>y2\<bar> * (?B - 1)"
    using assms unfolding rel_close_def by simp_all
  have a2: "\<bar>x2\<bar> \<le> \<bar>y2\<bar> * ?B"
    using assms(2) by (rule rel_close_abs)
  have "x1 * x2 - y1 * y2 = (x1 - y1) * x2 + y1 * (x2 - y2)"
    by (simp add: algebra_simps)
  then have "\<bar>x1 * x2 - y1 * y2\<bar> \<le> \<bar>x1 - y1\<bar> * \<bar>x2\<bar> + \<bar>y1\<bar> * \<bar>x2 - y2\<bar>"
    by (metis abs_mult abs_triangle_ineq)
  also have "\<dots> \<le> (\<bar>y1\<bar> * (?A - 1)) * (\<bar>y2\<bar> * ?B) + \<bar>y1\<bar> * (\<bar>y2\<bar> * (?B - 1))"
  proof (intro add_mono mult_mono)
    show "\<bar>x1 - y1\<bar> \<le> \<bar>y1\<bar> * (?A - 1)" by (rule d1)
    show "\<bar>x2\<bar> \<le> \<bar>y2\<bar> * ?B" by (rule a2)
    show "0 \<le> \<bar>y1\<bar> * (?A - 1)" using A1 by simp
    show "0 \<le> \<bar>x2\<bar>" by simp
    show "\<bar>y1\<bar> \<le> \<bar>y1\<bar>" by simp
    show "\<bar>x2 - y2\<bar> \<le> \<bar>y2\<bar> * (?B - 1)" by (rule d2)
    show "0 \<le> \<bar>y1\<bar>" by simp
    show "0 \<le> \<bar>x2 - y2\<bar>" by simp
  qed
  also have "\<dots> = \<bar>y1 * y2\<bar> * ((1 + 1 / 2 ^ 53) ^ (n + m) - 1)"
    by (simp add: abs_mult power_add algebra_simps)
  finally show ?thesis
    unfolding rel_close_def .
qed

lemma rel_close_add:
  assumes "rel_close n x1 y1" and "rel_close n x2 y2" and "0 \<le> y1" and "0 \<le> y2"
  shows "rel_close n (x1 + x2) (y1 + y2)"
proof -
  let ?A = "(1 + 1 / 2 ^ 53 :: rat) ^ n"
  have "\<bar>(x1 + x2) - (y1 + y2)\<bar> \<le> \<bar>x1 - y1\<bar> + \<bar>x2 - y2\<bar>"
    by linarith
  also have "\<dots> \<le> \<bar>y1\<bar> * (?A - 1) + \<bar>y2\<bar> * (?A - 1)"
    using assms(1,2) unfolding rel_close_def by linarith
  also have "\<dots> = \<bar>y1 + y2\<bar> * (?A - 1)"
    using assms(3,4) by (simp add: algebra_simps)
  finally show ?thesis
    unfolding rel_close_def .
qed

lemma rel_close_half: "rel_close n x y \<Longrightarrow> rel_close n (x / 2) (y / 2)"
  using rel_close_mult [of n x y 0 "1 / 2" "1 / 2"] by (simp add: rel_close_refl)

lemma rel_close_2_bound: "rel_close 2 x y \<Longrightarrow> \<bar>x - y\<bar> \<le> \<bar>y\<bar> / 2 ^ 51"
proof -
  assume "rel_close 2 x y"
  moreover have "((1 + 1 / 2 ^ 53 :: rat) ^ 2 - 1) \<le> 1 / 2 ^ 51"
    by (simp add: power2_eq_square)
  then have "\<bar>y\<bar> * ((1 + 1 / 2 ^ 53) ^ 2 - 1) \<le> \<bar>y\<bar> * (1 / 2 ^ 51)"
    by (intro mult_left_mono) simp_all
  ultimately show ?thesis
    unfolding rel_close_def by simp
qed

lemma rel_close_7_bound: "rel_close 7 x y \<Longrightarrow> \<bar>x - y\<bar> \<le> \<bar>y\<bar> / 2 ^ 50"
proof -
  assume "rel_close 7 x y"
  moreover have "((1 + 1 / 2 ^ 53 :: rat) ^ 7 - 1) \<le> 1 / 2 ^ 50"
    by (simp add: power_numeral_reduce)
  then have "\<bar>y\<bar> * ((1 + 1 / 2 ^ 53) ^ 7 - 1) \<le> \<bar>y\<bar> * (1 / 2 ^ 50)"
    by (intro mult_left_mono) simp_all
  ultimately show ?thesis
    unfolding rel_close_def by simp
qed


lemma rnd_one: "rnd 1 = 1"
  by (simp add: rnd_eval)

subsection \<open>Rounding at concrete values\<close>

lemma rnd_zero: "rnd 0 = 0"
  by (simp add: rnd_def)

subsection \<open>The price calculation\<close>

lemma py_mul_zero_pow10: "num_val (py_mul (PyInt 0) (py_pow10 e)) = 0"
  by (simp add: py_pow10_def rnd_zero)

lemma two_roundings: "\<bar>rnd (P * rnd y) - P * y\<bar> \<le> \<bar>P * y\<bar> / 2 ^ 51"
proof -
  have "rel_close 1 (rnd y) y"
    using rel_close_rnd [OF rel_close_refl] by simp
  then have "rel_close (0 + 1) (P * rnd y) (P * y)"
    using rel_close_refl by (rule rel_close_mult [rotated])
  then have "rel_close 2 (rnd (P * rnd y)) (P * y)"
    using rel_close_rnd [of 1 "P * rnd y" "P * y"] by (simp add: numeral_2_eq_2)
  then show ?thesis
    by (rule rel_close_2_bound)
qed

lemma slippage_up:
  "py_mul (PyFloat P) (py_add (PyInt 1) s) = PyFloat (rnd (P * rnd (1 + num_val s)))"
  by (cases s) (simp_all add: rnd_one)

lemma slippage_down:
  "py_mul (PyFloat P) (py_sub (PyInt 1) s) = PyFloat (rnd (P * rnd (1 - num_val s)))"
  by (cases s) (simp_all add: rnd_one)

text \<open>
  C5. For every median price \<open>P\<close> and slippage \<open>s\<close> (an int or a float),
  \<^verbatim>\<open>_get_prices\<close> computes the slippage-adjusted price as \<open>P * (1 + s)\<close> for an open
  long, \<open>P * (1 - s)\<close> for an open short, \<open>P * (1 - s)\<close> for a close long and
  \<open>P * (1 + s)\<close> for a close short, evaluated in binary64: the sum or difference is
  rounded, then the product. The result differs from the exact product by at most
  \<open>2^-51\<close> of it. \<open>P\<close> is the binary64 mean of the two oracle prices, and the second
  component the function returns is \<^verbatim>\<open>int\<close> of the adjusted price.
\<close>

theorem get_prices_slippage_direction:
  "slippage_price (self\<lparr>is_long := True\<rparr>) (PyFloat P) True is_close
     = PyFloat (rnd (P * rnd (1 + num_val (slippage_percent self))))
   \<and> slippage_price (self\<lparr>is_long := False\<rparr>) (PyFloat P) True is_close
     = PyFloat (rnd (P * rnd (1 - num_val (slippage_percent self))))
   \<and> slippage_price (self\<lparr>is_long := True\<rparr>) (PyFloat P) False True
     = PyFloat (rnd (P * rnd (1 - num_val (slippage_percent self))))
   \<and> slippage_price (self\<lparr>is_long := False\<rparr>) (PyFloat P) False True
     = PyFloat (rnd (P * rnd (1 + num_val (slippage_percent self))))
   \<and> \<bar>rnd (P * rnd (1 + s)) - P * (1 + s)\<bar> \<le> \<bar>P * (1 + s)\<bar> / 2 ^ 51
   \<and> \<bar>rnd (P * rnd (1 - s)) - P * (1 - s)\<bar> \<le> \<bar>P * (1 - s)\<bar> / 2 ^ 51
   \<and> (case get_prices self d prices is_open is_close swap of
        Inl e \<Rightarrow> prices (index_token_address self) = None
      | Inr (price, adjusted, acceptable) \<Rightarrow>
          (\<exists>entry. prices (index_token_address self) = Some entry
             \<and> price = PyFloat (rnd (rnd (rnd (maxPriceFull entry) + rnd (minPriceFull entry)) / 2)))
          \<and> adjusted = py_int (slippage_price self price is_open is_close))"
proof (intro conjI)
  show "\<bar>rnd (P * rnd (1 + s)) - P * (1 + s)\<bar> \<le> \<bar>P * (1 + s)\<bar> / 2 ^ 51"
    by (rule two_roundings)
  show "\<bar>rnd (P * rnd (1 - s)) - P * (1 - s)\<bar> \<le> \<bar>P * (1 - s)\<bar> / 2 ^ 51"
    by (rule two_roundings)
  show "case get_prices self d prices is_open is_close swap of
        Inl e \<Rightarrow> prices (index_token_address self) = None
      | Inr (price, adjusted, acceptable) \<Rightarrow>
          (\<exists>entry. prices (index_token_address self) = Some entry
             \<and> price = PyFloat (rnd (rnd (rnd (maxPriceFull entry) + rnd (minPriceFull entry)) / 2)))
          \<and> adjusted = py_int (slippage_price self price is_open is_close)"
    by (simp add: get_prices_def median_price_def np_median_def Let_def split: option.splits)
qed (simp_all add: slippage_price_def slippage_up slippage_down del: py_mul.simps py_add.simps
      py_sub.simps)

lemma btc_median: "rnd (rnd (rnd 60010 + rnd 60000) / 2) = 60005"
  by (simp add: rnd_eval)

lemma btc_up:
  "rnd (60005 * rnd (1 + 3458764513820541 / 1152921504606846976))
     = 8271765476296621 / 137438953472"
  by (simp add: rnd_eval)

lemma btc_down:
  "rnd (60005 * rnd (1 - 3458764513820541 / 1152921504606846976))
     = 4111141664939049 / 68719476736"
  by (simp add: rnd_eval)

lemma btc_acceptable:
  "py_mul (PyInt 60185) (py_pow10 (- 22))
     = PyFloat (7812459660772965 / 1298074214633706907132624082305024)"
  by (simp add: py_pow10_def rnd_eval)

lemma btc_floor: "py_int (PyFloat (8271765476296621 / 137438953472)) = 60185"
  by (simp add: floor_rat_numeral_div)

lemma btc_order_long: "btc_order\<lparr>is_long := True\<rparr> = btc_order"
  by (simp add: btc_order_def eth_order_def)

lemma btc_slippage:
  "num_val (slippage_percent btc_order) = 3458764513820541 / 1152921504606846976"
  "num_val (slippage_percent (btc_order\<lparr>is_long := False\<rparr>))
     = 3458764513820541 / 1152921504606846976"
  by (simp_all add: btc_order_def)

theorem get_prices_slippage_direction_witness:
  "slippage_price (btc_order\<lparr>is_long := True\<rparr>) (PyFloat 60005) True False
     = PyFloat (8271765476296621 / 137438953472)
   \<and> slippage_price (btc_order\<lparr>is_long := False\<rparr>) (PyFloat 60005) True False
     = PyFloat (4111141664939049 / 68719476736)
   \<and> slippage_price (btc_order\<lparr>is_long := True\<rparr>) (PyFloat 60005) False True
     = PyFloat (4111141664939049 / 68719476736)
   \<and> slippage_price (btc_order\<lparr>is_long := False\<rparr>) (PyFloat 60005) False True
     = PyFloat (8271765476296621 / 137438953472)
   \<and> \<bar>(8271765476296621 / 137438953472 :: rat)
        - 60005 * (1 + 3458764513820541 / 1152921504606846976)\<bar>
       \<le> \<bar>60005 * (1 + 3458764513820541 / 1152921504606846976)\<bar> / 2 ^ 51
   \<and> get_prices btc_order 8 btc_oracle True False False
       = Inr (PyFloat 60005, 60185,
              PyFloat (7812459660772965 / 1298074214633706907132624082305024))"
proof -
  note t = get_prices_slippage_direction [where self = btc_order and P = 60005
      and is_close = False and s = "3458764513820541 / 1152921504606846976" and d = 8
      and prices = btc_oracle and is_open = True and swap = False]
  have c1: "slippage_price (btc_order\<lparr>is_long := True\<rparr>) (PyFloat 60005) True False
     = PyFloat (rnd (60005 * rnd (1 + num_val (slippage_percent btc_order))))"
    using t by (elim conjE)
  have c2: "slippage_price (btc_order\<lparr>is_long := False\<rparr>) (PyFloat 60005) True False
     = PyFloat (rnd (60005 * rnd (1 - num_val (slippage_percent btc_order))))"
    using t by (elim conjE)
  have c3: "slippage_price (btc_order\<lparr>is_long := True\<rparr>) (PyFloat 60005) False True
     = PyFloat (rnd (60005 * rnd (1 - num_val (slippage_percent btc_order))))"
    using t by (elim conjE)
  have c4: "slippage_price (btc_order\<lparr>is_long := False\<rparr>) (PyFloat 60005) False True
     = PyFloat (rnd (60005 * rnd (1 + num_val (slippage_percent btc_order))))"
    using t by (elim conjE)
  have c5: "\<bar>rnd (60005 * rnd (1 + 3458764513820541 / 1152921504606846976))
              - 60005 * (1 + 3458764513820541 / 1152921504606846976)\<bar>
            \<le> \<bar>60005 * (1 + 3458764513820541 / 1152921504606846976)\<bar> / 2 ^ 51"
    using t by (elim conjE)
  have entry: "btc_oracle (index_token_address btc_order)
                 = Some \<lparr>maxPriceFull = 60010, minPriceFull = 60000\<rparr>"
    by (simp add: btc_oracle_def btc_order_def)
  have price: "median_price \<lparr>maxPriceFull = 60010, minPriceFull = 60000\<rparr> = PyFloat 60005"
    by (simp only: median_price_def np_median_def price_entry.simps btc_median)
  have adj: "slippage_price btc_order (PyFloat 60005) True False
               = PyFloat (8271765476296621 / 137438953472)"
    using c1 by (simp only: btc_order_long btc_slippage btc_up)
  have dec: "(8::int) - PRECISION = - 22"
    by (simp add: PRECISION_def)
  have run: "get_prices btc_order 8 btc_oracle True False False
       = Inr (PyFloat 60005, 60185,
              PyFloat (7812459660772965 / 1298074214633706907132624082305024))"
    by (simp only: get_prices_def entry option.case Let_def price adj btc_floor dec
        btc_acceptable)
  show ?thesis
    using c1 c2 c3 c4 c5 run
    by (simp only: btc_slippage btc_up btc_down)
qed

text \<open>
  C3, as stated, fails: for a swap (neither open nor close) the source assigns
  \<^verbatim>\<open>slippage = 0\<close>, so the slippage-adjusted price it returns is 0, not the median
  3000000000000001.
\<close>

theorem get_prices_swap_not_median:
  "get_prices eth_order 18 eth_oracle False False True
     = Inr (PyFloat 3000000000000001, 0, PyFloat 0)
   \<and> num_val (PyInt 0) \<noteq> num_val (PyFloat 3000000000000001)"
  by code_simp

text \<open>
  C3, amended. For every swap order (neither open nor close) whose index token is in the
  oracle snapshot, \<^verbatim>\<open>_get_prices\<close> returns the median price as its first component,
  0 as the slippage-adjusted price and an acceptable price of value 0; slippage is not
  applied.
\<close>

theorem get_prices_swap:
  assumes "prices (index_token_address self) = Some entry"
  shows "get_prices self d prices False False swap
           = Inr (median_price entry, 0, py_mul (PyInt 0) (py_pow10 (d - PRECISION)))
         \<and> num_val (py_mul (PyInt 0) (py_pow10 (d - PRECISION))) = 0"
  using assms by (simp add: get_prices_def slippage_price_def py_mul_zero_pow10)

theorem get_prices_swap_witness:
  "eth_oracle (index_token_address eth_order)
     = Some \<lparr>maxPriceFull = 3000000000000001, minPriceFull = 3000000000000001\<rparr>
   \<and> get_prices eth_order 18 eth_oracle False False True
     = Inr (PyFloat 3000000000000001, 0, PyFloat 0)"
proof -
  have h: "eth_oracle (index_token_address eth_order)
     = Some \<lparr>maxPriceFull = 3000000000000001, minPriceFull = 3000000000000001\<rparr>"
    by (simp add: eth_oracle_def eth_order_def)
  have run: "get_prices eth_order 18 eth_oracle False False True
     = Inr (PyFloat 3000000000000001, 0, PyFloat 0)"
    by code_simp
  show ?thesis
    using get_prices_swap [where prices = eth_oracle and self = eth_order and d = 18
        and swap = True, OF h] h run by simp
qed

text \<open>
  C4, as stated, fails when the decimal count is below 30: \<^verbatim>\<open>10 ** (decimals - 30)\<close> is
  then a float and so is the product. For the 18-decimal token at 3000000000000001 the
  claim gives \<open>3000000000000001 / 10^12\<close>, which no binary64 number equals; the source
  returns the float 3298534883328001 / 2^40.
\<close>

theorem get_prices_acceptable_price_inexact:
  "get_prices eth_order 18 eth_oracle True False False
     = Inr (PyFloat 3000000000000001, 3000000000000001,
            PyFloat (3298534883328001 / 1099511627776))
   \<and> num_val (PyFloat (3298534883328001 / 1099511627776))
       \<noteq> of_int \<lfloor>3000000000000001 :: rat\<rfloor> * (1 / 10 ^ 12)"
  by code_simp

text \<open>
  C4, amended. For every decimal count \<open>d\<close> and every slippage-adjusted price \<open>p \<ge> 0\<close>,
  the returned adjusted price is \<open>floor p\<close>; when \<open>d \<ge> 30\<close> the acceptable price is the
  int \<open>floor p * 10^(d - 30)\<close>, exactly; when \<open>d < 30\<close> it is the float obtained by
  converting \<open>floor p\<close> to binary64, multiplying by the binary64 number nearest to
  \<open>10^(d - 30)\<close> and rounding the product.
\<close>

theorem get_prices_acceptable_price:
  assumes "get_prices self d prices is_open is_close swap = Inr (price, adjusted, acceptable)"
  shows "(0 \<le> num_val (slippage_price self price is_open is_close) \<longrightarrow>
            adjusted = \<lfloor>num_val (slippage_price self price is_open is_close)\<rfloor>)
         \<and> (PRECISION \<le> d \<longrightarrow> acceptable = PyInt (adjusted * 10 ^ nat (d - PRECISION)))
         \<and> (d < PRECISION \<longrightarrow>
              acceptable = PyFloat (rnd (rnd (of_int adjusted) * rnd (1 / 10 ^ nat (PRECISION - d)))))"
proof -
  obtain entry where e: "prices (index_token_address self) = Some entry"
    using assms by (auto simp: get_prices_def split: option.splits)
  have p: "price = median_price entry"
    and a: "adjusted = py_int (slippage_price self price is_open is_close)"
    and c: "acceptable = py_mul (PyInt adjusted) (py_pow10 (d - PRECISION))"
    using assms e by (auto simp: get_prices_def Let_def)
  have "0 \<le> num_val x \<longrightarrow> py_int x = \<lfloor>num_val x\<rfloor>" for x
    by (cases x) auto
  then show ?thesis
    using a c by (auto simp: py_pow10_def)
qed

theorem get_prices_acceptable_price_witness:
  "get_prices eth_order 18 eth_oracle True False False
     = Inr (PyFloat 3000000000000001, 3000000000000001,
            PyFloat (3298534883328001 / 1099511627776))
   \<and> PyFloat (3298534883328001 / 1099511627776)
     = PyFloat (rnd (rnd (of_int 3000000000000001) * rnd (1 / 10 ^ nat (PRECISION - 18))))
   \<and> get_prices eth_order 32 eth_oracle True False False
     = Inr (PyFloat 3000000000000001, 3000000000000001, PyInt 300000000000000100)
   \<and> PyInt 300000000000000100 = PyInt (3000000000000001 * 10 ^ nat (32 - PRECISION))"
proof -
  have run18: "get_prices eth_order 18 eth_oracle True False False
     = Inr (PyFloat 3000000000000001, 3000000000000001,
            PyFloat (3298534883328001 / 1099511627776))"
    by code_simp
  have run32: "get_prices eth_order 32 eth_oracle True False False
     = Inr (PyFloat 3000000000000001, 3000000000000001, PyInt 300000000000000100)"
    by code_simp
  show ?thesis
    using get_prices_acceptable_price [OF run18] get_prices_acceptable_price [OF run32]
      run18 run32
    by (simp add: PRECISION_def)
qed

subsection \<open>Submission\<close>

lemma built_txns_append: "built_txns (xs @ ys) = built_txns xs @ built_txns ys"
  by (induction xs rule: built_txns.induct) auto

lemma write_calls_append: "write_calls (xs @ ys) = write_calls xs @ write_calls ys"
  by (induction xs rule: write_calls.induct) auto

lemma count_sends_append: "count_sends (xs @ ys) = count_sends xs + count_sends ys"
  by (induction xs rule: count_sends.induct) auto

lemma submit_transaction_returns_normally:
  "to_checksum_address nd a = Inr wa \<Longrightarrow>
   fst (submit_transaction nd self a v args w) = Inr ()"
  by (simp add: submit_transaction_def)

text \<open>
  C1 (the code diverges from the claim). The gateway rejects the broadcast: the body of
  the \<^verbatim>\<open>try\<close> statement raises \<^verbatim>\<open>ValueError\<close>, and \<^verbatim>\<open>_submit_transaction\<close>
  returns normally, exactly as it does when the broadcast is accepted.
\<close>

theorem submit_transaction_swallows_rejection:
  "fst (submit_try rejecting_node increase_order0 0 [''createOrder''] 7 world0)
     = Inl (ValueError ''nonce too low'')
   \<and> fst (submit_transaction rejecting_node increase_order0 ''0xA1'' 0 [''createOrder''] world0)
     = Inr ()
   \<and> fst (submit_transaction accepting_node increase_order0 ''0xA1'' 0 [''createOrder''] world0)
     = Inr ()"
  by code_simp

lemma submit_try_debug:
  assumes "debug_mode self"
  shows "led (snd (submit_try nd self v args n w)) = led w"
    and "write_calls (trace (snd (submit_try nd self v args n w))) = write_calls (trace w)"
    and "built_txns (trace (snd (submit_try nd self v args n w)))
           = built_txns (trace (snd (submit_try nd (self\<lparr>debug_mode := False\<rparr>) v args n w)))"
  using assms
  by (auto simp: submit_try_def record_event_def Let_def built_txns_append write_calls_append
      split: option.splits sum.splits prod.splits)

text \<open>
  C2, as stated, fails: with \<^verbatim>\<open>debug_mode\<close> set the transaction is built but
  \<^verbatim>\<open>sign_transaction\<close> is not called, so no signed transaction is produced; the live
  run of the same order signs and sends.
\<close>

theorem debug_mode_does_not_sign:
  "trace (snd (submit_transaction accepting_node (increase_order0\<lparr>debug_mode := True\<rparr>)
                 ''0xA1'' 0 [''createOrder''] world0))
     = [Built raw_txn0]
   \<and> trace (snd (submit_transaction accepting_node increase_order0
                 ''0xA1'' 0 [''createOrder''] world0))
     = [Built raw_txn0, SignCall raw_txn0, SendCall ''0xsigned'']"
  by code_simp

text \<open>
  C2, amended. For every order run with \<^verbatim>\<open>debug_mode\<close> set, \<^verbatim>\<open>_submit_transaction\<close>
  reads the nonce and builds the raw transaction, the same one the live run of that order
  builds from the same gateway state, and stops before signing: it adds no call of
  \<^verbatim>\<open>sign_transaction\<close> or \<^verbatim>\<open>send_raw_transaction\<close> to the trace and leaves the
  ledger unchanged.
\<close>

theorem debug_mode_stops_before_signing:
  assumes "debug_mode self"
  shows "led (snd (submit_transaction nd self a v args w)) = led w
         \<and> write_calls (trace (snd (submit_transaction nd self a v args w)))
             = write_calls (trace w)
         \<and> built_txns (trace (snd (submit_transaction nd self a v args w)))
             = built_txns (trace (snd (submit_transaction nd (self\<lparr>debug_mode := False\<rparr>)
                                         a v args w)))"
  using submit_try_debug [OF assms]
  by (simp add: submit_transaction_def Let_def split: sum.splits)

theorem debug_mode_stops_before_signing_witness:
  "debug_mode (increase_order0\<lparr>debug_mode := True\<rparr>)
   \<and> write_calls (trace (snd (submit_transaction accepting_node
         (increase_order0\<lparr>debug_mode := True\<rparr>) ''0xA1'' 0 [''createOrder''] world0))) = []
   \<and> built_txns (trace (snd (submit_transaction accepting_node
         (increase_order0\<lparr>debug_mode := True\<rparr>) ''0xA1'' 0 [''createOrder''] world0)))
       = [raw_txn0]
   \<and> built_txns (trace (snd (submit_transaction accepting_node
         (increase_order0\<lparr>debug_mode := True, debug_mode := False\<rparr>) ''0xA1'' 0
         [''createOrder''] world0)))
       = [raw_txn0]"
proof -
  have h: "debug_mode (increase_order0\<lparr>debug_mode := True\<rparr>)"
    by simp
  have run: "built_txns (trace (snd (submit_transaction accepting_node
         (increase_order0\<lparr>debug_mode := True\<rparr>) ''0xA1'' 0 [''createOrder''] world0)))
       = [raw_txn0]"
    by code_simp
  have w0: "write_calls (trace world0) = []"
    by (simp add: world0_def)
  show ?thesis
    using debug_mode_stops_before_signing [OF h, of accepting_node "''0xA1''" 0
        "[''createOrder'']" world0] run w0 h
    by simp
qed

text \<open>
  C8. For the two order kinds of the source, increase and decrease, the gas field of the
  transaction that \<^verbatim>\<open>_submit_transaction\<close> builds after \<^verbatim>\<open>determine_gas_limits\<close> is
  twice the value the kind's estimator of the gas-limit table returns on the ledger.
\<close>

theorem gas_ceiling_is_twice_estimator:
  assumes "cls = IncreaseOrder \<and> kind = ''increase_order''
           \<or> cls = DecreaseOrder \<and> kind = ''decrease_order''"
    and "tbl kind = Some est"
    and "to_checksum_address nd a = Inr wa"
    and "encode_call nd (Multicall args) = None"
  shows "fst (determine_gas_limits cls tbl self) = Inr ()
         \<and> map txn_gas (built_txns (trace (snd
               (submit_transaction nd (snd (determine_gas_limits cls tbl self)) a v args w))))
             = map txn_gas (built_txns (trace w)) @ [2 * call_estimator est (led w)]"
  using assms
  by (auto simp: submit_transaction_def submit_try_def record_event_def Let_def
      built_txns_append split: sum.splits prod.splits)

theorem gas_ceiling_is_twice_estimator_witness:
  "gas_table0 ''increase_order'' = Some (DataStoreUint ''increaseOrderGasLimit'')
   \<and> to_checksum_address accepting_node ''0xA1'' = Inr ''0xA1''
   \<and> encode_call accepting_node (Multicall [''createOrder'']) = None
   \<and> call_estimator (DataStoreUint ''increaseOrderGasLimit'') (led world0) = 3000000
   \<and> map txn_gas (built_txns (trace (snd (submit_transaction accepting_node
         (snd (determine_gas_limits IncreaseOrder gas_table0 eth_order)) ''0xA1'' 0
         [''createOrder''] world0))))
       = [6000000]"
proof -
  have k: "IncreaseOrder = IncreaseOrder \<and> ''increase_order'' = ''increase_order''
           \<or> IncreaseOrder = DecreaseOrder \<and> ''increase_order'' = ''decrease_order''"
    by simp
  have t: "gas_table0 ''increase_order'' = Some (DataStoreUint ''increaseOrderGasLimit'')"
    by (simp add: gas_table0_def)
  have c: "to_checksum_address accepting_node ''0xA1'' = Inr ''0xA1''"
    by (simp add: accepting_node_def)
  have e: "encode_call accepting_node (Multicall [''createOrder'']) = None"
    by (simp add: accepting_node_def)
  have g: "call_estimator (DataStoreUint ''increaseOrderGasLimit'') (led world0) = 3000000"
    by (simp add: world0_def ledger0_def)
  have w0: "built_txns (trace world0) = []"
    by (simp add: world0_def)
  show ?thesis
    using gas_ceiling_is_twice_estimator [where cls = IncreaseOrder
        and kind = "''increase_order''" and tbl = gas_table0
        and est = "DataStoreUint ''increaseOrderGasLimit''" and nd = accepting_node
        and a = "''0xA1''" and wa = "''0xA1''" and args = "[''createOrder'']"
        and self = eth_order and v = 0 and w = world0, OF k t c e] t c e g w0
    by simp
qed

subsection \<open>Allowance\<close>

lemma approve_spender_sends_once:
  "count_sends (trace (snd (approve_spender nd cfg t u sp amt fee w)))
     \<le> count_sends (trace w) + 1"
  by (auto simp: approve_spender_def record_event_def Let_def count_sends_append
      split: option.splits sum.splits prod.splits)

lemma approve_spender_sends_onceD:
  "approve_spender nd cfg t u sp amt fee w = (r, w') \<Longrightarrow>
   count_sends (trace w') \<le> Suc (count_sends (trace w))"
  using approve_spender_sends_once [of nd cfg t u sp amt fee w] by simp

lemma check_if_approved_sends_once:
  "count_sends (trace (snd (check_if_approved nd cfg spender token amt fee approve w)))
     \<le> count_sends (trace w) + 1"
  by (auto simp: check_if_approved_def Let_def split: sum.splits prod.splits
      dest: approve_spender_sends_onceD)

lemma check_if_approved_sufficient:
  assumes "to_checksum_address nd spender = Inr sc"
    and "to_checksum_address nd (user_wallet_address cfg) = Inr uc"
    and "amt \<le> token_allowance (led w) (remap_token token) uc sc"
  shows "snd (check_if_approved nd cfg spender token amt fee approve w) = w"
  using assms
  by (auto simp: check_if_approved_def Let_def split: sum.splits prod.splits)

text \<open>
  C9. When the three address conversions succeed, the owner's balance is at least the
  required amount and the allowance read is at least the required amount,
  \<^verbatim>\<open>check_if_approved\<close> returns normally and leaves the ledger and the trace as they
  were: nothing is built, signed or sent. Consequently, with \<^verbatim>\<open>approve=True\<close>, when the
  allowance is sufficient in the state the first call leaves, two calls in a row with the
  same arguments send at most one approval in total.
\<close>

theorem check_if_approved_noop:
  assumes "to_checksum_address nd spender = Inr sc"
    and "to_checksum_address nd (user_wallet_address cfg) = Inr uc"
    and "to_checksum_address nd (remap_token token) = Inr tc"
  shows "(amt \<le> (if tc = WETH_ARBITRUM then native_balance (led w) uc
                  else token_balance (led w) (remap_token token) uc)
          \<and> amt \<le> token_allowance (led w) (remap_token token) uc sc
          \<longrightarrow> check_if_approved nd cfg spender token amt fee approve w = (Inr (), w))
       \<and> (amt \<le> token_allowance
                   (led (snd (check_if_approved nd cfg spender token amt fee True w)))
                   (remap_token token) uc sc
          \<longrightarrow> count_sends (trace (snd (check_if_approved nd cfg spender token amt fee True
                   (snd (check_if_approved nd cfg spender token amt fee True w)))))
              \<le> count_sends (trace w) + 1)"
proof (intro conjI impI)
  assume "amt \<le> (if tc = WETH_ARBITRUM then native_balance (led w) uc
                   else token_balance (led w) (remap_token token) uc)
          \<and> amt \<le> token_allowance (led w) (remap_token token) uc sc"
  then show "check_if_approved nd cfg spender token amt fee approve w = (Inr (), w)"
    using assms by (auto simp: check_if_approved_def Let_def)
next
  let ?w1 = "snd (check_if_approved nd cfg spender token amt fee True w)"
  assume "amt \<le> token_allowance (led ?w1) (remap_token token) uc sc"
  then have "snd (check_if_approved nd cfg spender token amt fee True ?w1) = ?w1"
    using assms(1,2) by (rule check_if_approved_sufficient [rotated 2])
  then show "count_sends (trace (snd (check_if_approved nd cfg spender token amt fee True ?w1)))
               \<le> count_sends (trace w) + 1"
    using check_if_approved_sends_once [of nd cfg spender token amt fee True w] by simp
qed

theorem check_if_approved_noop_witness:
  "to_checksum_address approving_node ''0xrouter'' = Inr ''0xrouter''
   \<and> to_checksum_address approving_node (user_wallet_address arbitrum_config) = Inr ''0xA1''
   \<and> to_checksum_address approving_node (remap_token ''0xtoken'') = Inr ''0xtoken''
   \<and> trace (snd (check_if_approved approving_node arbitrum_config ''0xrouter'' ''0xtoken''
         500 (PyInt 10) True world0))
       = [Built approve_txn0, SignCall approve_txn0, SendCall ''0xapprove500'']
   \<and> 500 \<le> token_balance (led (snd (check_if_approved approving_node arbitrum_config
         ''0xrouter'' ''0xtoken'' 500 (PyInt 10) True world0))) ''0xtoken'' ''0xA1''
   \<and> 500 \<le> token_allowance (led (snd (check_if_approved approving_node arbitrum_config
         ''0xrouter'' ''0xtoken'' 500 (PyInt 10) True world0))) ''0xtoken'' ''0xA1'' ''0xrouter''
   \<and> check_if_approved approving_node arbitrum_config ''0xrouter'' ''0xtoken'' 500 (PyInt 10)
         True (snd (check_if_approved approving_node arbitrum_config ''0xrouter'' ''0xtoken''
                 500 (PyInt 10) True world0))
       = (Inr (), snd (check_if_approved approving_node arbitrum_config ''0xrouter''
                 ''0xtoken'' 500 (PyInt 10) True world0))
   \<and> count_sends (trace (snd (check_if_approved approving_node arbitrum_config ''0xrouter''
         ''0xtoken'' 500 (PyInt 10) True
         (snd (check_if_approved approving_node arbitrum_config ''0xrouter'' ''0xtoken''
                 500 (PyInt 10) True world0)))))
       \<le> count_sends (trace world0) + 1"
proof -
  let ?w1 = "snd (check_if_approved approving_node arbitrum_config ''0xrouter'' ''0xtoken''
                500 (PyInt 10) True world0)"
  have c1: "to_checksum_address approving_node ''0xrouter'' = Inr ''0xrouter''"
    by code_simp
  have c2: "to_checksum_address approving_node (user_wallet_address arbitrum_config) = Inr ''0xA1''"
    by code_simp
  have c3: "to_checksum_address approving_node (remap_token ''0xtoken'') = Inr ''0xtoken''"
    by code_simp
  have r: "remap_token ''0xtoken'' = ''0xtoken''"
    by code_simp
  have n: "''0xtoken'' \<noteq> WETH_ARBITRUM"
    by code_simp
  have t: "trace ?w1 = [Built approve_txn0, SignCall approve_txn0, SendCall ''0xapprove500'']"
    by code_simp
  have b: "500 \<le> token_balance (led ?w1) ''0xtoken'' ''0xA1''"
    by code_simp
  have a: "500 \<le> token_allowance (led ?w1) ''0xtoken'' ''0xA1'' ''0xrouter''"
    by code_simp
  show ?thesis
    using check_if_approved_noop [OF c1 c2 c3, of 500 ?w1 "PyInt 10" True]
      check_if_approved_noop [OF c1 c2 c3, of 500 world0 "PyInt 10" True]
      c1 c2 c3 r n t b a
    by simp
qed

subsection \<open>Parameter resolution\<close>

lemma required_keys_chain_first:
  "increase \<or> decrease \<or> swap \<Longrightarrow>
   \<exists>keys. required_keys (OrderArgumentParser increase decrease swap) = Some (''chain'' # keys)"
  by (auto simp: OrderArgumentParser_def)

text \<open>
  C7. For every parser of a kind (increase, decrease or swap) and every request
  dictionary without the key \<^verbatim>\<open>chain\<close>, whatever else it holds,
  \<^verbatim>\<open>process_parameters_dictionary\<close> raises the exception that asks for the chain name,
  and the dictionary is as it was: no handler, check or scaling ran before.
\<close>

theorem missing_chain_fails:
  assumes "increase \<or> decrease \<or> swap"
    and "required_keys self = required_keys (OrderArgumentParser increase decrease swap)"
    and "h r ''chain'' = None"
  shows "process_parameters_dictionary env self r h
           = (Inl (Exception ''Please pass chain name in parameters dictionary!''),
              self\<lparr>parameters_dict := Some r\<rparr>, h)"
proof -
  obtain keys where k: "required_keys self = Some (''chain'' # keys)"
    using required_keys_chain_first [OF assms(1)] assms(2) by auto
  have m: "determine_missing_keys self (h r)
             = Inr (''chain'' # filter (\<lambda>key. h r key = None) keys)"
    using k assms(3) by (simp add: determine_missing_keys_def)
  have "h(r := h r) = h"
    by (rule fun_upd_triv)
  then have "resolve_missing env self r h
               = (Some (Exception ''Please pass chain name in parameters dictionary!''),
                  self\<lparr>parameters_dict := Some r\<rparr>, h)"
    by (simp add: resolve_missing_def m missing_base_key_methods_def on_parameters_dict_def
        handle_missing_def handle_missing_chain_def)
  then show ?thesis
    by (simp add: process_parameters_dictionary_def)
qed

theorem missing_chain_fails_witness:
  "(request0(''chain'' := None)) ''chain'' = None
   \<and> process_parameters_dictionary env0 increase_parser 0 (heap_of (request0(''chain'' := None)))
       = (Inl (Exception ''Please pass chain name in parameters dictionary!''),
          increase_parser\<lparr>parameters_dict := Some 0\<rparr>, heap_of (request0(''chain'' := None)))"
proof -
  have k: "True \<or> False \<or> False"
    by simp
  have r: "required_keys increase_parser = required_keys (OrderArgumentParser True False False)"
    by (simp add: increase_parser_def)
  have c: "heap_of (request0(''chain'' := None)) 0 ''chain'' = None"
    by (simp add: heap_of_def)
  show ?thesis
    using missing_chain_fails [where increase = True and decrease = False and swap = False
        and self = increase_parser and h = "heap_of (request0(''chain'' := None))" and r = 0
        and env = env0, OF k r c]
    by simp
qed

lemma resolve_missing_self:
  assumes "resolve_missing env self0 r h = (None, self, h1)"
  shows "self = self0\<lparr>parameters_dict := Some r\<rparr>"
  using assms
  by (auto simp: resolve_missing_def Let_def split: sum.splits prod.splits option.splits
      if_splits)

lemma then_do_Inr:
  "then_do m f = Inr y \<longleftrightarrow> (\<exists>x. m = Inr x \<and> f x = Inr y)"
  by (cases m) (auto simp: then_do_def)

lemma then_do_Inl:
  "then_do m f = Inl e \<longleftrightarrow> (m = Inl e \<or> (\<exists>x. m = Inr x \<and> f x = Inl e))"
  by (cases m) (auto simp: then_do_def)

lemma getitem_not_Exception: "getitem d k \<noteq> Inl (Exception m)"
  by (auto simp: getitem_def split: option.splits)

lemma getitem_by_not_Exception: "getitem_by t k \<noteq> Inl (Exception m)"
  by (auto simp: getitem_by_def split: option.splits pyval.splits)

lemma as_number_not_Exception: "as_number v \<noteq> Inl (Exception m)"
  by (cases v) auto

lemma get_tokens_address_dict_not_Exception: "get_tokens_address_dict env c \<noteq> Inl (Exception m)"
  by (auto simp: get_tokens_address_dict_def split: option.splits pyval.splits)

lemma format_size_info_not_Exception:
  "format_size_info env self d \<noteq> (Some (Exception m), d')"
  by (auto simp: format_size_info_def Let_def then_do_Inl getitem_not_Exception
      getitem_by_not_Exception as_number_not_Exception get_tokens_address_dict_not_Exception
      split: sum.splits prod.splits option.splits if_splits)

lemma resolve_missing_nothing_missing:
  assumes "determine_missing_keys self (h r) = Inr []"
    and "calculate_missing_position_size_info_keys env (h r) = (None, h r)"
    and "check_if_max_leverage_exceeded env (h r) = (None, h r)"
  shows "resolve_missing env self r h = (None, self\<lparr>parameters_dict := Some r\<rparr>, h)"
  using assms by (simp add: resolve_missing_def on_parameters_dict_def Let_def)

lemma calculate_initial_collateral_usd_formula:
  assumes "calculate_initial_collateral_usd env d = Inr usd"
  shows "\<exists>v amount c prices start entry tokens info.
           d ''initial_collateral_delta'' = Some v \<and> as_number v = Inr amount
         \<and> d ''chain'' = Some c \<and> get_recent_prices env c = Inr prices
         \<and> d ''start_token_address'' = Some start \<and> getitem_by prices start = Inr entry
         \<and> get_tokens_address_dict env c = Inr tokens \<and> getitem_by tokens start = Inr info
         \<and> usd = py_mul (py_mul (median_price entry) (py_pow10 (decimals info - 30))) amount"
  using assms
  by (auto simp: calculate_initial_collateral_usd_def then_do_Inr getitem_def Let_def
      split: option.splits)

lemma py_mul_float: "py_mul (PyFloat a) b = PyFloat (rnd (a * py_float b))"
  by (cases b) simp_all

lemma py_float_pow10:
  "py_float (py_pow10 (d - 30))
     = rnd (if 30 \<le> d then 10 ^ nat (d - 30) else 1 / 10 ^ nat (30 - d))"
proof (cases "30 \<le> d")
  case True
  then show ?thesis
    by (simp add: py_pow10_def)
next
  case False
  then have "nat (- (d - 30)) = nat (30 - d)"
    by simp
  then show ?thesis
    using False by (simp add: py_pow10_def)
qed

lemma py_float_close: "rel_close 1 (py_float amount) (num_val amount)"
proof (cases amount)
  case (PyInt k)
  then show ?thesis
    using rel_close_rnd [OF rel_close_refl, of "of_int k"] by simp
next
  case (PyFloat a)
  then show ?thesis
    using rel_close_mono [OF rel_close_refl, of 1 a] by simp
qed

lemma collateral_usd_accuracy:
  assumes "0 \<le> a" and "0 \<le> b"
  shows "\<bar>rnd (rnd (rnd (rnd (rnd a + rnd b) / 2) * rnd t) * py_float amount)
           - (a + b) / 2 * t * num_val amount\<bar>
         \<le> \<bar>(a + b) / 2 * t * num_val amount\<bar> / 2 ^ 50"
proof -
  have r1: "rel_close 1 (rnd x) x" for x
    using rel_close_rnd [OF rel_close_refl, of x] by simp
  have "rel_close 1 (rnd a + rnd b) (a + b)"
    using r1 r1 assms by (rule rel_close_add)
  then have "rel_close (Suc 1) (rnd (rnd a + rnd b)) (a + b)"
    by (rule rel_close_rnd)
  then have "rel_close (Suc 1) (rnd (rnd a + rnd b) / 2) ((a + b) / 2)"
    by (rule rel_close_half)
  then have m: "rel_close (Suc (Suc 1)) (rnd (rnd (rnd a + rnd b) / 2)) ((a + b) / 2)"
    by (rule rel_close_rnd)
  have "rel_close (Suc (Suc 1) + 1) (rnd (rnd (rnd a + rnd b) / 2) * rnd t) ((a + b) / 2 * t)"
    using m r1 by (rule rel_close_mult)
  then have u: "rel_close (Suc (Suc (Suc 1) + 1))
                  (rnd (rnd (rnd (rnd a + rnd b) / 2) * rnd t)) ((a + b) / 2 * t)"
    by (rule rel_close_rnd)
  have "rel_close (Suc (Suc (Suc 1) + 1) + 1)
          (rnd (rnd (rnd (rnd a + rnd b) / 2) * rnd t) * py_float amount)
          ((a + b) / 2 * t * num_val amount)"
    using u py_float_close by (rule rel_close_mult)
  then have "rel_close (Suc (Suc (Suc (Suc 1) + 1) + 1))
          (rnd (rnd (rnd (rnd (rnd a + rnd b) / 2) * rnd t) * py_float amount))
          ((a + b) / 2 * t * num_val amount)"
    by (rule rel_close_rnd)
  then have "rel_close 7
          (rnd (rnd (rnd (rnd (rnd a + rnd b) / 2) * rnd t) * py_float amount))
          ((a + b) / 2 * t * num_val amount)"
    by (rule rel_close_mono) simp
  then show ?thesis
    by (rule rel_close_7_bound)
qed

lemma calculate_initial_collateral_usd_value:
  assumes "calculate_initial_collateral_usd env d = Inr usd"
  shows "\<exists>v amount c prices start entry tokens info.
           d ''initial_collateral_delta'' = Some v \<and> as_number v = Inr amount
         \<and> d ''chain'' = Some c \<and> get_recent_prices env c = Inr prices
         \<and> d ''start_token_address'' = Some start \<and> getitem_by prices start = Inr entry
         \<and> get_tokens_address_dict env c = Inr tokens \<and> getitem_by tokens start = Inr info
         \<and> usd = PyFloat (rnd (rnd (rnd (rnd (rnd (maxPriceFull entry) + rnd (minPriceFull entry)) / 2)
                               * rnd (if 30 \<le> decimals info then 10 ^ nat (decimals info - 30)
                                      else 1 / 10 ^ nat (30 - decimals info)))
                          * py_float amount))"
proof -
  obtain v amount c prices start entry tokens info where
    a: "d ''initial_collateral_delta'' = Some v" "as_number v = Inr amount"
       "d ''chain'' = Some c" "get_recent_prices env c = Inr prices"
       "d ''start_token_address'' = Some start" "getitem_by prices start = Inr entry"
       "get_tokens_address_dict env c = Inr tokens" "getitem_by tokens start = Inr info"
    and u: "usd = py_mul (py_mul (median_price entry) (py_pow10 (decimals info - 30))) amount"
    using calculate_initial_collateral_usd_formula [OF assms] by (elim exE conjE)
  have "usd = PyFloat (rnd (rnd (rnd (rnd (rnd (maxPriceFull entry) + rnd (minPriceFull entry)) / 2)
                               * rnd (if 30 \<le> decimals info then 10 ^ nat (decimals info - 30)
                                      else 1 / 10 ^ nat (30 - decimals info)))
                          * py_float amount))"
    unfolding u median_price_def np_median_def py_mul_float py_float_pow10 ..
  then show ?thesis
    using a by (intro exI conjI)
qed

text \<open>
  C6. For an increase order that passes the handling of missing keys and the size and
  leverage methods, the collateral value is computed as the mean of the two oracle prices
  of the start token, times \<open>10 ** (decimals - 30)\<close>, times the collateral delta, each
  step in binary64; for non-negative prices it differs from the exact product by at most
  \<open>2^-50\<close> of it. The order is rejected with the collateral exception, the dictionary
  left as the earlier steps made it and nothing written on chain (the parser has no
  access to the ledger), exactly when the computed value is below 2; and an increase order
  that resolves has a computed value of at least 2.
\<close>

theorem collateral_floor:
  assumes "is_increase self0"
    and "resolve_missing env self0 r h = (None, self, h1)"
  shows "(\<forall>usd. calculate_initial_collateral_usd env (h1 r) = Inr usd \<longrightarrow>
            (\<exists>v amount c prices start entry tokens info.
                h1 r ''initial_collateral_delta'' = Some v \<and> as_number v = Inr amount
              \<and> h1 r ''chain'' = Some c \<and> get_recent_prices env c = Inr prices
              \<and> h1 r ''start_token_address'' = Some start
              \<and> getitem_by prices start = Inr entry
              \<and> get_tokens_address_dict env c = Inr tokens
              \<and> getitem_by tokens start = Inr info
              \<and> usd = PyFloat (rnd (rnd (rnd (rnd (rnd (maxPriceFull entry)
                                                    + rnd (minPriceFull entry)) / 2)
                                    * rnd (if 30 \<le> decimals info
                                           then 10 ^ nat (decimals info - 30)
                                           else 1 / 10 ^ nat (30 - decimals info)))
                               * py_float amount))
              \<and> (0 \<le> maxPriceFull entry \<and> 0 \<le> minPriceFull entry \<longrightarrow>
                    \<bar>num_val usd
                       - (maxPriceFull entry + minPriceFull entry) / 2
                         * (if 30 \<le> decimals info then 10 ^ nat (decimals info - 30)
                            else 1 / 10 ^ nat (30 - decimals info))
                         * num_val amount\<bar>
                    \<le> \<bar>(maxPriceFull entry + minPriceFull entry) / 2
                         * (if 30 \<le> decimals info then 10 ^ nat (decimals info - 30)
                            else 1 / 10 ^ nat (30 - decimals info))
                         * num_val amount\<bar> / 2 ^ 50))
          \<and> ((process_parameters_dictionary env self0 r h
                 = (Inl (Exception ''Position size must be backed by >$2 of collateral!''),
                    self, h1))
               \<longleftrightarrow> num_val usd < 2))
       \<and> (\<forall>out. fst (process_parameters_dictionary env self0 r h) = Inr out \<longrightarrow>
            (\<exists>usd. calculate_initial_collateral_usd env (h1 r) = Inr usd \<and> 2 \<le> num_val usd))"
proof -
  have s: "self = self0\<lparr>parameters_dict := Some r\<rparr>"
    using assms(2) by (rule resolve_missing_self)
  have inc: "is_increase self" and pd: "parameters_dict self = Some r"
    using s assms(1) by simp_all
  have rejected: "(process_parameters_dictionary env self0 r h
                 = (Inl (Exception ''Position size must be backed by >$2 of collateral!''),
                    self, h1))
               \<longleftrightarrow> num_val usd < 2"
    if "calculate_initial_collateral_usd env (h1 r) = Inr usd" for usd
  proof (cases "num_val usd < 2")
    case True
    then show ?thesis
      using that assms(2) inc pd
      by (simp add: process_parameters_dictionary_def check_collateral_def py_lt_def)
  next
    case False
    then have "check_collateral env self h1 = None"
      using that inc pd by (simp add: check_collateral_def py_lt_def)
    then show ?thesis
      using False assms(2) pd format_size_info_not_Exception [of env self "h1 r"]
      by (auto simp: process_parameters_dictionary_def on_parameters_dict_def
          split: prod.splits option.splits)
  qed
  have resolved: "\<exists>usd. calculate_initial_collateral_usd env (h1 r) = Inr usd \<and> 2 \<le> num_val usd"
    if "fst (process_parameters_dictionary env self0 r h) = Inr out" for out
    using that assms(2) inc pd
    by (auto simp: process_parameters_dictionary_def check_collateral_def py_lt_def
        split: prod.splits option.splits sum.splits if_splits)
  have computed: "\<exists>v amount c prices start entry tokens info.
                h1 r ''initial_collateral_delta'' = Some v \<and> as_number v = Inr amount
              \<and> h1 r ''chain'' = Some c \<and> get_recent_prices env c = Inr prices
              \<and> h1 r ''start_token_address'' = Some start
              \<and> getitem_by prices start = Inr entry
              \<and> get_tokens_address_dict env c = Inr tokens
              \<and> getitem_by tokens start = Inr info
              \<and> usd = PyFloat (rnd (rnd (rnd (rnd (rnd (maxPriceFull entry)
                                                    + rnd (minPriceFull entry)) / 2)
                                    * rnd (if 30 \<le> decimals info
                                           then 10 ^ nat (decimals info - 30)
                                           else 1 / 10 ^ nat (30 - decimals info)))
                               * py_float amount))
              \<and> (0 \<le> maxPriceFull entry \<and> 0 \<le> minPriceFull entry \<longrightarrow>
                    \<bar>num_val usd
                       - (maxPriceFull entry + minPriceFull entry) / 2
                         * (if 30 \<le> decimals info then 10 ^ nat (decimals info - 30)
                            else 1 / 10 ^ nat (30 - decimals info))
                         * num_val amount\<bar>
                    \<le> \<bar>(maxPriceFull entry + minPriceFull entry) / 2
                         * (if 30 \<le> decimals info then 10 ^ nat (decimals info - 30)
                            else 1 / 10 ^ nat (30 - decimals info))
                         * num_val amount\<bar> / 2 ^ 50)"
    if c: "calculate_initial_collateral_usd env (h1 r) = Inr usd" for usd
  proof -
    obtain v amount c prices start entry tokens info where
      a: "h1 r ''initial_collateral_delta'' = Some v" "as_number v = Inr amount"
         "h1 r ''chain'' = Some c" "get_recent_prices env c = Inr prices"
         "h1 r ''start_token_address'' = Some start" "getitem_by prices start = Inr entry"
         "get_tokens_address_dict env c = Inr tokens" "getitem_by tokens start = Inr info"
      and u: "usd = PyFloat (rnd (rnd (rnd (rnd (rnd (maxPriceFull entry)
                                                    + rnd (minPriceFull entry)) / 2)
                                    * rnd (if 30 \<le> decimals info
                                           then 10 ^ nat (decimals info - 30)
                                           else 1 / 10 ^ nat (30 - decimals info)))
                               * py_float amount))"
      using calculate_initial_collateral_usd_value [OF c] by (elim exE conjE)
    have acc: "0 \<le> maxPriceFull entry \<and> 0 \<le> minPriceFull entry \<longrightarrow>
                    \<bar>num_val usd
                       - (maxPriceFull entry + minPriceFull entry) / 2
                         * (if 30 \<le> decimals info then 10 ^ nat (decimals info - 30)
                            else 1 / 10 ^ nat (30 - decimals info))
                         * num_val amount\<bar>
                    \<le> \<bar>(maxPriceFull entry + minPriceFull entry) / 2
                         * (if 30 \<le> decimals info then 10 ^ nat (decimals info - 30)
                            else 1 / 10 ^ nat (30 - decimals info))
                         * num_val amount\<bar> / 2 ^ 50"
      unfolding u num_val.simps using collateral_usd_accuracy by blast
    show ?thesis
      using a u acc by (intro exI conjI)
  qed
  show ?thesis
  proof (intro conjI allI impI)
    fix usd
    assume c: "calculate_initial_collateral_usd env (h1 r) = Inr usd"
    show "\<exists>v amount c prices start entry tokens info.
                h1 r ''initial_collateral_delta'' = Some v \<and> as_number v = Inr amount
              \<and> h1 r ''chain'' = Some c \<and> get_recent_prices env c = Inr prices
              \<and> h1 r ''start_token_address'' = Some start
              \<and> getitem_by prices start = Inr entry
              \<and> get_tokens_address_dict env c = Inr tokens
              \<and> getitem_by tokens start = Inr info
              \<and> usd = PyFloat (rnd (rnd (rnd (rnd (rnd (maxPriceFull entry)
                                                    + rnd (minPriceFull entry)) / 2)
                                    * rnd (if 30 \<le> decimals info
                                           then 10 ^ nat (decimals info - 30)
                                           else 1 / 10 ^ nat (30 - decimals info)))
                               * py_float amount))
              \<and> (0 \<le> maxPriceFull entry \<and> 0 \<le> minPriceFull entry \<longrightarrow>
                    \<bar>num_val usd
                       - (maxPriceFull entry + minPriceFull entry) / 2
                         * (if 30 \<le> decimals info then 10 ^ nat (decimals info - 30)
                            else 1 / 10 ^ nat (30 - decimals info))
                         * num_val amount\<bar>
                    \<le> \<bar>(maxPriceFull entry + minPriceFull entry) / 2
                         * (if 30 \<le> decimals info then 10 ^ nat (decimals info - 30)
                            else 1 / 10 ^ nat (30 - decimals info))
                         * num_val amount\<bar> / 2 ^ 50)"
      using c by (rule computed)
    show "(process_parameters_dictionary env self0 r h
                 = (Inl (Exception ''Position size must be backed by >$2 of collateral!''),
                    self, h1))
               \<longleftrightarrow> num_val usd < 2"
      using c by (rule rejected)
  next
    fix out
    assume "fst (process_parameters_dictionary env self0 r h) = Inr out"
    then show "\<exists>usd. calculate_initial_collateral_usd env (h1 r) = Inr usd \<and> 2 \<le> num_val usd"
      by (rule resolved)
  qed
qed

lemmas parser_eval = then_do_def getitem_def getitem_by_def get_tokens_address_dict_def
  env0_def request0_def request_low_def heap_of_def oracle0_def tokens0_def usdc_token_def
  eth_token_def increase_parser_def OrderArgumentParser_def

lemma usdc_median:
  "median_price \<lparr>maxPriceFull = 1000000000000000000000000,
                  minPriceFull = 1000000000000000000000000\<rparr>
     = PyFloat 999999999999999983222784"
  by (simp add: median_price_def np_median_def rnd_eval)

lemma pow10_m24:
  "py_pow10 (- 24) = PyFloat (5444517870735015 / 5444517870735015415413993718908291383296)"
  by (simp add: py_pow10_def rnd_eval)

lemma usdc_unit_price:
  "py_mul (PyFloat 999999999999999983222784)
          (PyFloat (5444517870735015 / 5444517870735015415413993718908291383296))
     = PyFloat (9007199254740991 / 9007199254740992)"
  by (simp add: rnd_eval)

lemma usd_50:
  "py_mul (PyFloat (9007199254740991 / 9007199254740992)) (PyInt 50)
     = PyFloat (7036874417766399 / 140737488355328)"
  by (simp add: rnd_eval)

lemma usd_2:
  "py_mul (PyFloat (9007199254740991 / 9007199254740992)) (PyInt 2)
     = PyFloat (9007199254740991 / 4503599627370496)"
  by (simp add: rnd_eval)

lemma collateral_usd_request0:
  "calculate_initial_collateral_usd env0 (heap_of request0 0)
     = Inr (PyFloat (7036874417766399 / 140737488355328))"
  by (simp add: calculate_initial_collateral_usd_def parser_eval usdc_median pow10_m24
      usdc_unit_price usd_50 del: py_mul.simps)

lemma collateral_usd_request_low:
  "calculate_initial_collateral_usd env0 (heap_of request_low 0)
     = Inr (PyFloat (9007199254740991 / 4503599627370496))"
  by (simp add: calculate_initial_collateral_usd_def parser_eval usdc_median pow10_m24
      usdc_unit_price usd_2 del: py_mul.simps)

lemma resolve_missing_request0:
  "resolve_missing env0 increase_parser 0 (heap_of request0)
     = (None, increase_parser\<lparr>parameters_dict := Some 0\<rparr>, heap_of request0)"
  by (rule resolve_missing_nothing_missing)
     (simp_all add: determine_missing_keys_def parser_eval)

lemma resolve_missing_request_low:
  "resolve_missing env0 increase_parser 0 (heap_of request_low)
     = (None, increase_parser\<lparr>parameters_dict := Some 0\<rparr>, heap_of request_low)"
  by (rule resolve_missing_nothing_missing)
     (simp_all add: determine_missing_keys_def parser_eval)

lemma format_request0:
  "format_size_info env0 (increase_parser\<lparr>parameters_dict := Some 0\<rparr>) request0
     = (None, request0(''size_delta'' \<mapsto> Num (PyInt (1000 * 10 ^ 30)),
                       ''initial_collateral_delta'' \<mapsto> Num (PyInt 50000000)))"
  by (simp add: format_size_info_def parser_eval py_pow10_def)

lemma process_request0:
  "process_parameters_dictionary env0 increase_parser 0 (heap_of request0)
     = (Inr (Some 0), increase_parser\<lparr>parameters_dict := Some 0\<rparr>,
        (heap_of request0)(0 := request0(''size_delta'' \<mapsto> Num (PyInt (1000 * 10 ^ 30)),
                       ''initial_collateral_delta'' \<mapsto> Num (PyInt 50000000))))"
proof -
  have h: "heap_of request0 0 = request0"
    by (simp add: heap_of_def)
  have c: "check_collateral env0 (increase_parser\<lparr>parameters_dict := Some 0\<rparr>)
             (heap_of request0) = None"
    using collateral_usd_request0
    by (simp add: check_collateral_def py_lt_def increase_parser_def OrderArgumentParser_def)
  show ?thesis
    using resolve_missing_request0 c format_request0 h
    by (simp add: process_parameters_dictionary_def on_parameters_dict_def)
qed

lemma spread_median:
  "median_price \<lparr>maxPriceFull = 1000200000000000000000000,
                  minPriceFull = 999800000000000000000000\<rparr>
     = PyFloat 999999999999999983222784"
  by (simp add: median_price_def np_median_def rnd_eval)

lemmas spread_eval = parser_eval env_spread_def oracle_spread_def

lemma collateral_usd_spread:
  "calculate_initial_collateral_usd env_spread (heap_of request0 0)
     = Inr (PyFloat (7036874417766399 / 140737488355328))"
  by (simp add: calculate_initial_collateral_usd_def spread_eval spread_median pow10_m24
      usdc_unit_price usd_50 del: py_mul.simps)

lemma collateral_usd_spread_low:
  "calculate_initial_collateral_usd env_spread (heap_of request_low 0)
     = Inr (PyFloat (9007199254740991 / 4503599627370496))"
  by (simp add: calculate_initial_collateral_usd_def spread_eval spread_median pow10_m24
      usdc_unit_price usd_2 del: py_mul.simps)

lemma resolve_missing_spread:
  "resolve_missing env_spread increase_parser 0 (heap_of request0)
     = (None, increase_parser\<lparr>parameters_dict := Some 0\<rparr>, heap_of request0)"
  by (rule resolve_missing_nothing_missing)
     (simp_all add: determine_missing_keys_def spread_eval)

lemma resolve_missing_spread_low:
  "resolve_missing env_spread increase_parser 0 (heap_of request_low)
     = (None, increase_parser\<lparr>parameters_dict := Some 0\<rparr>, heap_of request_low)"
  by (rule resolve_missing_nothing_missing)
     (simp_all add: determine_missing_keys_def spread_eval)

lemma format_spread:
  "format_size_info env_spread (increase_parser\<lparr>parameters_dict := Some 0\<rparr>) request0
     = (None, request0(''size_delta'' \<mapsto> Num (PyInt (1000 * 10 ^ 30)),
                       ''initial_collateral_delta'' \<mapsto> Num (PyInt 50000000)))"
  by (simp add: format_size_info_def spread_eval py_pow10_def)

lemma process_spread:
  "fst (process_parameters_dictionary env_spread increase_parser 0 (heap_of request0))
     = Inr (Some 0)"
proof -
  have h: "heap_of request0 0 = request0"
    by (simp add: heap_of_def)
  have c: "check_collateral env_spread (increase_parser\<lparr>parameters_dict := Some 0\<rparr>)
             (heap_of request0) = None"
    using collateral_usd_spread
    by (simp add: check_collateral_def py_lt_def increase_parser_def OrderArgumentParser_def)
  show ?thesis
    using resolve_missing_spread c format_spread h
    by (simp add: process_parameters_dictionary_def on_parameters_dict_def)
qed

theorem collateral_floor_witness:
  "is_increase increase_parser
   \<and> resolve_missing env_spread increase_parser 0 (heap_of request0)
       = (None, increase_parser\<lparr>parameters_dict := Some 0\<rparr>, heap_of request0)
   \<and> calculate_initial_collateral_usd env_spread (heap_of request0 0)
       = Inr (PyFloat (7036874417766399 / 140737488355328))
   \<and> \<bar>(7036874417766399 / 140737488355328 :: rat)
        - (1000200000000000000000000 + 999800000000000000000000) / 2 * (1 / 10 ^ 24) * 50\<bar>
       \<le> \<bar>((1000200000000000000000000 + 999800000000000000000000) / 2 * (1 / 10 ^ 24) * 50
             :: rat)\<bar> / 2 ^ 50
   \<and> fst (process_parameters_dictionary env_spread increase_parser 0 (heap_of request0))
       = Inr (Some 0)
   \<and> resolve_missing env_spread increase_parser 0 (heap_of request_low)
       = (None, increase_parser\<lparr>parameters_dict := Some 0\<rparr>, heap_of request_low)
   \<and> calculate_initial_collateral_usd env_spread (heap_of request_low 0)
       = Inr (PyFloat (9007199254740991 / 4503599627370496))
   \<and> process_parameters_dictionary env_spread increase_parser 0 (heap_of request_low)
       = (Inl (Exception ''Position size must be backed by >$2 of collateral!''),
          increase_parser\<lparr>parameters_dict := Some 0\<rparr>, heap_of request_low)"
proof -
  have i: "is_increase increase_parser"
    by (simp add: increase_parser_def OrderArgumentParser_def)
  note t0 = collateral_floor [OF i resolve_missing_spread]
  note t1 = collateral_floor [OF i resolve_missing_spread_low]
  have low: "process_parameters_dictionary env_spread increase_parser 0 (heap_of request_low)
       = (Inl (Exception ''Position size must be backed by >$2 of collateral!''),
          increase_parser\<lparr>parameters_dict := Some 0\<rparr>, heap_of request_low)"
    using t1 collateral_usd_spread_low by simp
  obtain v amount c prices start entry tokens info where
    a: "heap_of request0 0 ''initial_collateral_delta'' = Some v" "as_number v = Inr amount"
       "heap_of request0 0 ''chain'' = Some c" "get_recent_prices env_spread c = Inr prices"
       "heap_of request0 0 ''start_token_address'' = Some start"
       "getitem_by prices start = Inr entry"
       "get_tokens_address_dict env_spread c = Inr tokens" "getitem_by tokens start = Inr info"
    and acc: "0 \<le> maxPriceFull entry \<and> 0 \<le> minPriceFull entry \<longrightarrow>
                    \<bar>num_val (PyFloat (7036874417766399 / 140737488355328))
                       - (maxPriceFull entry + minPriceFull entry) / 2
                         * (if 30 \<le> decimals info then 10 ^ nat (decimals info - 30)
                            else 1 / 10 ^ nat (30 - decimals info))
                         * num_val amount\<bar>
                    \<le> \<bar>(maxPriceFull entry + minPriceFull entry) / 2
                         * (if 30 \<le> decimals info then 10 ^ nat (decimals info - 30)
                            else 1 / 10 ^ nat (30 - decimals info))
                         * num_val amount\<bar> / 2 ^ 50"
    using t0 [THEN conjunct1, rule_format, OF collateral_usd_spread, THEN conjunct1]
    by (elim exE conjE)
  have e: "entry = \<lparr>maxPriceFull = 1000200000000000000000000,
                     minPriceFull = 999800000000000000000000\<rparr>"
    "decimals info = 6" "amount = PyInt 50"
    using a by (auto simp: spread_eval)
  have bound: "\<bar>(7036874417766399 / 140737488355328 :: rat)
        - (1000200000000000000000000 + 999800000000000000000000) / 2 * (1 / 10 ^ 24) * 50\<bar>
       \<le> \<bar>((1000200000000000000000000 + 999800000000000000000000) / 2 * (1 / 10 ^ 24) * 50
             :: rat)\<bar> / 2 ^ 50"
    using acc unfolding e by simp
  show ?thesis
    using i resolve_missing_spread collateral_usd_spread bound process_spread
      resolve_missing_spread_low collateral_usd_spread_low low
    by (intro conjI)
qed

subsection \<open>Formatting in place\<close>

lemma on_parameters_dict_frame:
  assumes "on_parameters_dict self f h = (e, h1)"
    and "parameters_dict self = Some r" and "r' \<noteq> r"
  shows "h1 r' = h r'"
  using assms by (auto simp: on_parameters_dict_def split: prod.splits)

lemma handle_missing_keys_frame:
  assumes "handle_missing_keys env self keys h = (e, h1)"
    and "parameters_dict self = Some r" and "r' \<noteq> r"
  shows "h1 r' = h r'"
  using assms
proof (induction keys arbitrary: h)
  case Nil
  then show ?case by simp
next
  case (Cons k keys)
  show ?case
  proof (cases "k \<in> set missing_base_key_methods")
    case False
    then show ?thesis using Cons by simp
  next
    case True
    obtain e2 h2 where o: "on_parameters_dict self (handle_missing env k) h = (e2, h2)"
      by (cases "on_parameters_dict self (handle_missing env k) h") auto
    have f: "h2 r' = h r'"
      using o Cons.prems(2,3) by (rule on_parameters_dict_frame)
    show ?thesis
    proof (cases e2)
      case None
      then have "handle_missing_keys env self keys h2 = (e, h1)"
        using Cons.prems(1) True o by simp
      then have "h1 r' = h2 r'"
        using Cons.prems(2,3) by (rule Cons.IH)
      then show ?thesis using f by simp
    next
      case (Some x)
      then have "h1 = h2"
        using Cons.prems(1) True o by simp
      then show ?thesis using f by simp
    qed
  qed
qed

lemma resolve_missing_frame:
  assumes "resolve_missing env self0 r h = (e, self, h1)" and "r' \<noteq> r"
  shows "h1 r' = h r'"
proof (cases "determine_missing_keys self0 (h r)")
  case (Inl x)
  then show ?thesis
    using assms by (simp add: resolve_missing_def)
next
  case (Inr keys)
  let ?s = "self0\<lparr>parameters_dict := Some r\<rparr>"
  have pd: "parameters_dict ?s = Some r"
    by simp
  obtain e1 h2 where k: "handle_missing_keys env ?s keys h = (e1, h2)"
    by (cases "handle_missing_keys env ?s keys h") auto
  have f1: "h2 r' = h r'"
    using k pd assms(2) by (rule handle_missing_keys_frame)
  obtain e2 h3 where c: "on_parameters_dict ?s (calculate_missing_position_size_info_keys env) h2
                           = (e2, h3)"
    by (cases "on_parameters_dict ?s (calculate_missing_position_size_info_keys env) h2") auto
  have f2: "h3 r' = h2 r'"
    using c pd assms(2) by (rule on_parameters_dict_frame)
  obtain e3 h4 where l: "on_parameters_dict ?s (check_if_max_leverage_exceeded env) h3 = (e3, h4)"
    by (cases "on_parameters_dict ?s (check_if_max_leverage_exceeded env) h3") auto
  have f3: "h4 r' = h3 r'"
    using l pd assms(2) by (rule on_parameters_dict_frame)
  have "h1 = h2 \<or> h1 = h3 \<or> h1 = h4"
    using assms(1) Inr k c l
    by (auto simp: resolve_missing_def Let_def split: option.splits if_splits)
  then show ?thesis
    using f1 f2 f3 by auto
qed

lemma format_size_info_success:
  assumes "format_size_info env self d = (None, d')"
  shows "\<exists>v n c tokens start info.
           d ''initial_collateral_delta'' = Some v \<and> as_number v = Inr n
         \<and> d ''chain'' = Some c \<and> get_tokens_address_dict env c = Inr tokens
         \<and> d ''start_token_address'' = Some start \<and> getitem_by tokens start = Inr info
         \<and> d' ''initial_collateral_delta''
             = Some (Num (PyInt (py_int (py_mul n (py_pow10 (decimals info))))))
         \<and> (\<not> is_swap self \<longrightarrow>
               (\<exists>u m. d ''size_delta_usd'' = Some u \<and> as_number u = Inr m
                  \<and> d' ''size_delta''
                      = Some (Num (PyInt (py_int (py_mul m (PyInt (10 ^ 30))))))))
         \<and> (is_swap self \<longrightarrow> d' ''size_delta'' = d ''size_delta'')
         \<and> (\<forall>k. k \<noteq> ''initial_collateral_delta'' \<longrightarrow> k \<noteq> ''size_delta'' \<longrightarrow> d' k = d k)"
  using assms
  by (auto simp: format_size_info_def then_do_Inr then_do_Inl getitem_def Let_def
      split: sum.splits prod.splits option.splits if_splits)

lemma process_success:
  assumes "process_parameters_dictionary env self0 r h = (Inr out, self, h')"
  shows "\<exists>h1. resolve_missing env self0 r h = (None, self, h1)
            \<and> check_collateral env self h1 = None
            \<and> format_size_info env self (h1 r) = (None, h' r)
            \<and> out = Some r \<and> h' = h1(r := h' r)"
proof -
  obtain e s1 h1 where rm: "resolve_missing env self0 r h = (e, s1, h1)"
    by (cases "resolve_missing env self0 r h") auto
  have e: "e = None" and s1: "s1 = self"
    using assms rm
    by (auto simp: process_parameters_dictionary_def split: option.splits prod.splits)
  have pd: "parameters_dict self = Some r"
    using resolve_missing_self [of env self0 r h self h1] rm e s1 by simp
  have cc: "check_collateral env self h1 = None"
    using assms rm e s1
    by (auto simp: process_parameters_dictionary_def split: option.splits prod.splits)
  have fm: "format_size_info env self (h1 r) = (None, h' r) \<and> out = Some r
              \<and> h' = h1(r := h' r)"
    using assms rm e s1 cc pd
    by (auto simp: process_parameters_dictionary_def on_parameters_dict_def
        split: option.splits prod.splits)
  show ?thesis
    using rm e s1 cc fm by simp
qed

lemma format_after_resolve:
  assumes rm: "resolve_missing env self0 r h = (None, self, h1)"
    and fm: "format_size_info env self (h1 r) = (None, d')"
  shows "\<exists>v n c tokens start info.
             h1 r ''initial_collateral_delta'' = Some v \<and> as_number v = Inr n
           \<and> h1 r ''chain'' = Some c \<and> get_tokens_address_dict env c = Inr tokens
           \<and> h1 r ''start_token_address'' = Some start \<and> getitem_by tokens start = Inr info
           \<and> d' ''initial_collateral_delta''
               = Some (Num (PyInt (py_int (py_mul n (py_pow10 (decimals info))))))
           \<and> (\<not> is_swap self0 \<longrightarrow>
                 (\<exists>u m. h1 r ''size_delta_usd'' = Some u \<and> as_number u = Inr m
                    \<and> d' ''size_delta''
                        = Some (Num (PyInt (py_int (py_mul m (PyInt (10 ^ 30))))))))"
proof -
  have sw: "is_swap self = is_swap self0"
    using resolve_missing_self [OF rm] by simp
  obtain v n c tokens start info where
    a: "h1 r ''initial_collateral_delta'' = Some v" "as_number v = Inr n"
       "h1 r ''chain'' = Some c" "get_tokens_address_dict env c = Inr tokens"
       "h1 r ''start_token_address'' = Some start" "getitem_by tokens start = Inr info"
       "d' ''initial_collateral_delta''
               = Some (Num (PyInt (py_int (py_mul n (py_pow10 (decimals info))))))"
    and b: "\<not> is_swap self \<longrightarrow>
               (\<exists>u m. h1 r ''size_delta_usd'' = Some u \<and> as_number u = Inr m
                  \<and> d' ''size_delta''
                      = Some (Num (PyInt (py_int (py_mul m (PyInt (10 ^ 30)))))))"
    using format_size_info_success [OF fm] by (elim exE conjE) 
  show ?thesis
    using a b sw by (intro exI conjI) simp_all
qed


text \<open>
  C10. When \<^verbatim>\<open>process_parameters_dictionary\<close> succeeds it returns the reference it was
  passed, and only that dictionary of the store has changed; in it, with \<open>h1\<close> the store
  after the handlers and the size and leverage methods,
  \<^verbatim>\<open>initial_collateral_delta\<close> is \<open>int(initial_collateral_delta * 10 ** decimals)\<close>
  for the decimals of the start token, and for a non-swap parser \<^verbatim>\<open>size_delta\<close> is
  \<open>int(size_delta_usd * 10 ** 30)\<close>. The operation is not idempotent: a second run on
  its own output, when the first part of that run changes nothing, multiplies the integer
  \<^verbatim>\<open>initial_collateral_delta\<close> by \<open>10 ** decimals\<close> again.
\<close>

theorem process_parameters_dictionary_in_place:
  assumes "process_parameters_dictionary env self0 r h = (Inr out, self, h')"
  shows "out = Some r
       \<and> (\<forall>r'. r' \<noteq> r \<longrightarrow> h' r' = h r')
       \<and> (\<exists>h1 v n c tokens start info.
             resolve_missing env self0 r h = (None, self, h1)
           \<and> h1 r ''initial_collateral_delta'' = Some v \<and> as_number v = Inr n
           \<and> h1 r ''chain'' = Some c \<and> get_tokens_address_dict env c = Inr tokens
           \<and> h1 r ''start_token_address'' = Some start \<and> getitem_by tokens start = Inr info
           \<and> h' r ''initial_collateral_delta''
               = Some (Num (PyInt (py_int (py_mul n (py_pow10 (decimals info))))))
           \<and> (\<not> is_swap self0 \<longrightarrow>
                 (\<exists>u m. h1 r ''size_delta_usd'' = Some u \<and> as_number u = Inr m
                    \<and> h' r ''size_delta''
                        = Some (Num (PyInt (py_int (py_mul m (PyInt (10 ^ 30)))))))))
       \<and> (\<forall>out2 self2 h2.
             resolve_missing env self r h' = (None, self, h') \<longrightarrow>
             process_parameters_dictionary env self r h' = (Inr out2, self2, h2) \<longrightarrow>
             (\<exists>n1 c tokens start info.
                 h' r ''initial_collateral_delta'' = Some (Num (PyInt n1))
               \<and> h' r ''chain'' = Some c \<and> get_tokens_address_dict env c = Inr tokens
               \<and> h' r ''start_token_address'' = Some start
               \<and> getitem_by tokens start = Inr info
               \<and> h2 r ''initial_collateral_delta''
                   = Some (Num (PyInt (py_int (py_mul (PyInt n1) (py_pow10 (decimals info))))))
               \<and> (0 \<le> decimals info \<longrightarrow>
                     h2 r ''initial_collateral_delta''
                       = Some (Num (PyInt (n1 * 10 ^ nat (decimals info)))))))"
proof -
  obtain h1 where rm: "resolve_missing env self0 r h = (None, self, h1)"
    and fm: "format_size_info env self (h1 r) = (None, h' r)"
    and out: "out = Some r" and upd: "h' = h1(r := h' r)"
    using process_success [OF assms] by (elim exE conjE)
  have frame: "h' r' = h r'" if "r' \<noteq> r" for r'
  proof -
    have "h' r' = h1 r'"
      using upd that by (metis fun_upd_other)
    then show ?thesis
      using resolve_missing_frame [OF rm that] by simp
  qed
  obtain v n c tokens start info where
    a: "h1 r ''initial_collateral_delta'' = Some v" "as_number v = Inr n"
       "h1 r ''chain'' = Some c" "get_tokens_address_dict env c = Inr tokens"
       "h1 r ''start_token_address'' = Some start" "getitem_by tokens start = Inr info"
    and icd: "h' r ''initial_collateral_delta''
               = Some (Num (PyInt (py_int (py_mul n (py_pow10 (decimals info))))))"
    and b: "\<not> is_swap self0 \<longrightarrow>
               (\<exists>u m. h1 r ''size_delta_usd'' = Some u \<and> as_number u = Inr m
                  \<and> h' r ''size_delta''
                      = Some (Num (PyInt (py_int (py_mul m (PyInt (10 ^ 30)))))))"
    using format_after_resolve [OF rm fm] by (elim exE conjE)
  have second: "\<exists>n1 c tokens start info.
                 h' r ''initial_collateral_delta'' = Some (Num (PyInt n1))
               \<and> h' r ''chain'' = Some c \<and> get_tokens_address_dict env c = Inr tokens
               \<and> h' r ''start_token_address'' = Some start
               \<and> getitem_by tokens start = Inr info
               \<and> h2 r ''initial_collateral_delta''
                   = Some (Num (PyInt (py_int (py_mul (PyInt n1) (py_pow10 (decimals info))))))
               \<and> (0 \<le> decimals info \<longrightarrow>
                     h2 r ''initial_collateral_delta''
                       = Some (Num (PyInt (n1 * 10 ^ nat (decimals info)))))"
    if r2: "resolve_missing env self r h' = (None, self, h')"
      and p2: "process_parameters_dictionary env self r h' = (Inr out2, self2, h2)"
    for out2 self2 h2
  proof -
    obtain h3 where rm2: "resolve_missing env self r h' = (None, self2, h3)"
      and fm2: "format_size_info env self2 (h3 r) = (None, h2 r)"
      using process_success [OF p2] by (elim exE conjE)
    have eq: "self2 = self" "h3 = h'"
      using r2 rm2 by simp_all
    have fm3: "format_size_info env self (h' r) = (None, h2 r)"
      using fm2 eq by simp
    obtain v2 n2 c2 tokens2 start2 info2 where
      v2: "h' r ''initial_collateral_delta'' = Some v2" and n2: "as_number v2 = Inr n2"
      and c2: "h' r ''chain'' = Some c2" "get_tokens_address_dict env c2 = Inr tokens2"
      and st2: "h' r ''start_token_address'' = Some start2"
        "getitem_by tokens2 start2 = Inr info2"
      and res: "h2 r ''initial_collateral_delta''
                  = Some (Num (PyInt (py_int (py_mul n2 (py_pow10 (decimals info2))))))"
      using format_size_info_success [OF fm3] by (elim exE conjE)
    let ?n1 = "py_int (py_mul n (py_pow10 (decimals info)))"
    have nn: "n2 = PyInt ?n1"
      using v2 n2 icd by auto
    have res1: "h2 r ''initial_collateral_delta''
                  = Some (Num (PyInt (py_int (py_mul (PyInt ?n1) (py_pow10 (decimals info2))))))"
      using res nn by simp
    have pos: "0 \<le> decimals info2 \<longrightarrow>
                 h2 r ''initial_collateral_delta''
                   = Some (Num (PyInt (?n1 * 10 ^ nat (decimals info2))))"
      using res1 by (simp add: py_pow10_def)
    show ?thesis
      using icd c2 st2 res1 pos by (intro exI conjI)
  qed
  show ?thesis
  proof (intro conjI)
    show "out = Some r"
      by (rule out)
    show "\<forall>r'. r' \<noteq> r \<longrightarrow> h' r' = h r'"
      using frame by simp
    show "\<exists>h1 v n c tokens start info.
             resolve_missing env self0 r h = (None, self, h1)
           \<and> h1 r ''initial_collateral_delta'' = Some v \<and> as_number v = Inr n
           \<and> h1 r ''chain'' = Some c \<and> get_tokens_address_dict env c = Inr tokens
           \<and> h1 r ''start_token_address'' = Some start \<and> getitem_by tokens start = Inr info
           \<and> h' r ''initial_collateral_delta''
               = Some (Num (PyInt (py_int (py_mul n (py_pow10 (decimals info))))))
           \<and> (\<not> is_swap self0 \<longrightarrow>
                 (\<exists>u m. h1 r ''size_delta_usd'' = Some u \<and> as_number u = Inr m
                    \<and> h' r ''size_delta''
                        = Some (Num (PyInt (py_int (py_mul m (PyInt (10 ^ 30))))))))"
      using rm a icd b by (intro exI conjI)
    show "\<forall>out2 self2 h2.
             resolve_missing env self r h' = (None, self, h') \<longrightarrow>
             process_parameters_dictionary env self r h' = (Inr out2, self2, h2) \<longrightarrow>
             (\<exists>n1 c tokens start info.
                 h' r ''initial_collateral_delta'' = Some (Num (PyInt n1))
               \<and> h' r ''chain'' = Some c \<and> get_tokens_address_dict env c = Inr tokens
               \<and> h' r ''start_token_address'' = Some start
               \<and> getitem_by tokens start = Inr info
               \<and> h2 r ''initial_collateral_delta''
                   = Some (Num (PyInt (py_int (py_mul (PyInt n1) (py_pow10 (decimals info))))))
               \<and> (0 \<le> decimals info \<longrightarrow>
                     h2 r ''initial_collateral_delta''
                       = Some (Num (PyInt (n1 * 10 ^ nat (decimals info))))))"
      using second by (intro allI impI)
  qed
qed


lemma heap_of_upd: "(heap_of d)(0 := d') = heap_of d'"
  by (auto simp: heap_of_def)

lemma process_request0_again:
  "process_parameters_dictionary env0 increase_parser 0 (heap_of request0)
     = (Inr (Some 0), increase_parser1, heap_of request1)"
  using process_request0 by (simp add: heap_of_upd request1_def increase_parser1_def)

lemma usd_50m:
  "py_mul (PyFloat (9007199254740991 / 9007199254740992)) (PyInt 50000000)
     = PyFloat (6710886399999999 / 134217728)"
  by (simp add: rnd_eval)

lemma collateral_usd_request1:
  "calculate_initial_collateral_usd env0 (heap_of request1 0)
     = Inr (PyFloat (6710886399999999 / 134217728))"
  by (simp add: calculate_initial_collateral_usd_def parser_eval request1_def usdc_median
      pow10_m24 usdc_unit_price usd_50m del: py_mul.simps)

lemma resolve_missing_request1:
  "resolve_missing env0 increase_parser1 0 (heap_of request1)
     = (None, increase_parser1, heap_of request1)"
proof -
  have "resolve_missing env0 increase_parser1 0 (heap_of request1)
     = (None, increase_parser1\<lparr>parameters_dict := Some 0\<rparr>, heap_of request1)"
    by (rule resolve_missing_nothing_missing)
       (simp_all add: determine_missing_keys_def parser_eval request1_def increase_parser1_def)
  then show ?thesis
    by (simp add: increase_parser1_def)
qed

lemma format_request1:
  "format_size_info env0 increase_parser1 request1
     = (None, request1(''initial_collateral_delta'' \<mapsto> Num (PyInt 50000000000000)))"
  by (simp add: format_size_info_def parser_eval request1_def increase_parser1_def py_pow10_def
      fun_upd_twist)

lemma process_request1:
  "process_parameters_dictionary env0 increase_parser1 0 (heap_of request1)
     = (Inr (Some 0), increase_parser1,
        heap_of (request1(''initial_collateral_delta'' \<mapsto> Num (PyInt 50000000000000))))"
proof -
  have h: "heap_of request1 0 = request1"
    by (simp add: heap_of_def)
  have c: "check_collateral env0 increase_parser1 (heap_of request1) = None"
    using collateral_usd_request1
    by (simp add: check_collateral_def py_lt_def increase_parser1_def increase_parser_def
        OrderArgumentParser_def)
  have pd: "parameters_dict increase_parser1 = Some 0"
    by (simp add: increase_parser1_def)
  show ?thesis
    using resolve_missing_request1 c format_request1 h pd
    by (simp add: process_parameters_dictionary_def on_parameters_dict_def heap_of_upd)
qed

theorem process_parameters_dictionary_in_place_witness:
  "process_parameters_dictionary env0 increase_parser 0 (heap_of request0)
     = (Inr (Some 0), increase_parser1, heap_of request1)
   \<and> heap_of request1 0 ''initial_collateral_delta'' = Some (Num (PyInt 50000000))
   \<and> heap_of request1 0 ''size_delta'' = Some (Num (PyInt (1000 * 10 ^ 30)))
   \<and> resolve_missing env0 increase_parser1 0 (heap_of request1)
       = (None, increase_parser1, heap_of request1)
   \<and> process_parameters_dictionary env0 increase_parser1 0 (heap_of request1)
       = (Inr (Some 0), increase_parser1,
          heap_of (request1(''initial_collateral_delta'' \<mapsto> Num (PyInt 50000000000000))))
   \<and> heap_of (request1(''initial_collateral_delta'' \<mapsto> Num (PyInt 50000000000000))) 0
         ''initial_collateral_delta''
       = Some (Num (PyInt (50000000 * 10 ^ 6)))"
proof -
  let ?h2 = "heap_of (request1(''initial_collateral_delta'' \<mapsto> Num (PyInt 50000000000000)))"
  have a: "heap_of request1 0 ''initial_collateral_delta'' = Some (Num (PyInt 50000000))"
    by (simp add: heap_of_def request1_def)
  have b: "heap_of request1 0 ''size_delta'' = Some (Num (PyInt (1000 * 10 ^ 30)))"
    by (simp add: heap_of_def request1_def)
  have again: "\<forall>out2 self2 h2.
      resolve_missing env0 increase_parser1 0 (heap_of request1)
        = (None, increase_parser1, heap_of request1) \<longrightarrow>
      process_parameters_dictionary env0 increase_parser1 0 (heap_of request1)
        = (Inr out2, self2, h2) \<longrightarrow>
      (\<exists>n1 c tokens start info.
          heap_of request1 0 ''initial_collateral_delta'' = Some (Num (PyInt n1))
        \<and> heap_of request1 0 ''chain'' = Some c \<and> get_tokens_address_dict env0 c = Inr tokens
        \<and> heap_of request1 0 ''start_token_address'' = Some start
        \<and> getitem_by tokens start = Inr info
        \<and> h2 0 ''initial_collateral_delta''
            = Some (Num (PyInt (py_int (py_mul (PyInt n1) (py_pow10 (decimals info))))))
        \<and> (0 \<le> decimals info \<longrightarrow>
              h2 0 ''initial_collateral_delta''
                = Some (Num (PyInt (n1 * 10 ^ nat (decimals info))))))"
    using process_parameters_dictionary_in_place [OF process_request0_again] by (elim conjE)
  obtain n1 c tokens start info where
    n1: "heap_of request1 0 ''initial_collateral_delta'' = Some (Num (PyInt n1))"
    and ch: "heap_of request1 0 ''chain'' = Some c" "get_tokens_address_dict env0 c = Inr tokens"
    and st: "heap_of request1 0 ''start_token_address'' = Some start"
      "getitem_by tokens start = Inr info"
    and sc: "0 \<le> decimals info \<longrightarrow>
              ?h2 0 ''initial_collateral_delta''
                = Some (Num (PyInt (n1 * 10 ^ nat (decimals info))))"
    using again [rule_format, OF resolve_missing_request1 process_request1]
    by (elim exE conjE)
  have "n1 = 50000000"
    using n1 a by simp
  moreover have "decimals info = 6"
    using ch st by (auto simp: parser_eval request1_def)
  ultimately have c: "?h2 0 ''initial_collateral_delta'' = Some (Num (PyInt (50000000 * 10 ^ 6)))"
    using sc by simp
  show ?thesis
    using process_request0_again a b resolve_missing_request1 process_request1 c
    by (intro conjI)
qed


end
